theory Spec2Isabelle
  imports Main "HOL-Library.Sublist"
begin

section \<open>Data model of \<^verbatim>\<open>src/keystore/flash.py\<close>\<close>

text \<open>
  Python \<^verbatim>\<open>bytes\<close> and \<^verbatim>\<open>str\<close> values are both modelled as \<^typ>\<open>string\<close> (a list of
  bytes), so \<^verbatim>\<open>.encode()\<close> and \<^verbatim>\<open>.decode()\<close> are the identity. An
  \<^verbatim>\<open>ec.PrivateKey\<close> object is represented by the 32-byte secret it wraps.
\<close>

datatype keyval = Bytes string | PrivateKey string

text \<open>The dict kept in \<^verbatim>\<open>self.state\<close> and stored as \<^verbatim>\<open>pin.json\<close>.\<close>

record pin_state =
  pin :: "string option"
  pin_attempts_left :: int
  pin_attempts_max :: int

text \<open>
  The external collaborators of the module (hashlib, hmac, the elliptic-curve library,
  json, the cipher of \<^verbatim>\<open>helpers\<close>, bip39, bip32 and the random generator) are parameters
  of the model. The signature, public-key and HD-key objects of the library are the type
  parameters \<open>'sig\<close>, \<open>'pub\<close> and \<open>'hd\<close>. A parser that raises returns \<open>None\<close>.
  The value handed to \<open>json_dumps\<close> and returned by \<open>json_loads\<close> is what
  \<^verbatim>\<open>self.state\<close> holds: Python's \<^verbatim>\<open>None\<close> or the PIN-state dict.
\<close>

record ('sig, 'pub, 'hd) prims =
  sha256 :: "string \<Rightarrow> string"
  hmac_sha256 :: "string \<Rightarrow> string \<Rightarrow> string"
  ec_sign :: "string \<Rightarrow> string \<Rightarrow> 'sig"
  sig_serialize :: "'sig \<Rightarrow> string"
  sig_parse :: "string \<Rightarrow> 'sig option"
  get_public_key :: "string \<Rightarrow> 'pub"
  pub_verify :: "'pub \<Rightarrow> 'sig \<Rightarrow> string \<Rightarrow> bool"
  encrypt :: "string \<Rightarrow> string \<Rightarrow> string"
  decrypt :: "string \<Rightarrow> string \<Rightarrow> string option"
  json_dumps :: "pin_state option \<Rightarrow> string"
  json_loads :: "string \<Rightarrow> pin_state option option"
  mnemonic_is_valid :: "string \<Rightarrow> bool"
  mnemonic_to_seed :: "string \<Rightarrow> string \<Rightarrow> string"
  hd_from_seed :: "string \<Rightarrow> 'hd"
  hd_child :: "'hd \<Rightarrow> nat \<Rightarrow> bool \<Rightarrow> 'hd"
  hd_fingerprint :: "'hd \<Rightarrow> string"
  hd_key :: "'hd \<Rightarrow> string"
  WORDLIST :: "string list"
  get_random_bytes :: "nat \<Rightarrow> string"

text \<open>
  Exceptions are values. The first three are the classes the module raises itself; the
  others are the built-in exceptions of the interpreter that its statements can raise
  (a missing file, a missing dict key, subscripting \<^verbatim>\<open>None\<close>, a parser that rejects
  its input, a modulus of zero). Each carries the text \<^verbatim>\<open>str(e)\<close> yields; for the
  built-in ones that text is representative only.
\<close>

datatype error =
    KeyStoreError string
  | PinError string
  | CriticalErrorWipeImmediately string
  | OSError string
  | KeyError string
  | TypeError string
  | ValueError string
  | ZeroDivisionError string

fun str_exn :: "error \<Rightarrow> string" where
  "str_exn (KeyStoreError m) = m"
| "str_exn (PinError m) = m"
| "str_exn (CriticalErrorWipeImmediately m) = m"
| "str_exn (OSError m) = m"
| "str_exn (KeyError m) = m"
| "str_exn (TypeError m) = m"
| "str_exn (ValueError m) = m"
| "str_exn (ZeroDivisionError m) = m"

text \<open>
  The \<^verbatim>\<open>FlashKeyStore\<close> object together with the flash file system it works on:
  \<open>files\<close> maps a full file name to the file's content. The attribute
  \<^verbatim>\<open>_is_locked\<close> is the field \<open>priv_is_locked\<close>.
\<close>

record 'hd keystore =
  path :: string
  priv_is_locked :: bool
  mnemonic :: "string option"
  root :: "'hd option"
  fingerprint :: "string option"
  idkey :: "string option"
  state :: "pin_state option"
  keys :: "string \<rightharpoonup> keyval"
  files :: "string \<rightharpoonup> string"

text \<open>\<^verbatim>\<open>FlashKeyStore.__init__\<close>, on a given file system.\<close>

definition new_keystore :: "string \<Rightarrow> (string \<rightharpoonup> string) \<Rightarrow> 'hd keystore" where
  "new_keystore pth fls =
     \<lparr>path = pth, priv_is_locked = True, mnemonic = None, root = None, fingerprint = None,
      idkey = None, state = None, keys = Map.empty, files = fls\<rparr>"

section \<open>Library functions with a fixed meaning\<close>

text \<open>\<^verbatim>\<open>binascii.hexlify\<close>: two lower-case hexadecimal digits for each byte.\<close>

definition hex_digit :: "nat \<Rightarrow> char" where
  "hex_digit n = ''0123456789abcdef'' ! n"

definition hexlify :: "string \<Rightarrow> string" where
  "hexlify bs = concat (map (\<lambda>c. [hex_digit (of_char c div 16), hex_digit (of_char c mod 16)]) bs)"

text \<open>The conversion \<^verbatim>\<open>%d\<close> of an integer: its decimal digits, with a sign if negative.\<close>

fun str_nat :: "nat \<Rightarrow> string" where
  "str_nat n =
     (if n < 10 then [''0123456789'' ! n] else str_nat (n div 10) @ [''0123456789'' ! (n mod 10)])"

declare str_nat.simps [simp del]

definition str_int :: "int \<Rightarrow> string" where
  "str_int i = (if i < 0 then CHR ''-'' # str_nat (nat (- i)) else str_nat (nat i))"

text \<open>\<^verbatim>\<open>str.strip()\<close>: leading and trailing ASCII white space removed.\<close>

definition is_space :: "char \<Rightarrow> bool" where
  "is_space c = (c \<in> set [CHR '' '', CHR 0x09, CHR 0x0A, CHR 0x0B, CHR 0x0C, CHR 0x0D])"

definition strip :: "string \<Rightarrow> string" where
  "strip s = rev (dropWhile is_space (rev (dropWhile is_space s)))"

text \<open>\<^verbatim>\<open>int.from_bytes(bs, 'big')\<close>.\<close>

definition int_from_bytes_big :: "string \<Rightarrow> nat" where
  "int_from_bytes_big bs = foldl (\<lambda>a c. a * 256 + of_char c) 0 bs"

text \<open>
  Modelled from the spec: \<^verbatim>\<open>platform.delete_recursively\<close> and
  \<^verbatim>\<open>platform.file_exists\<close> are not among the sources. The storage contract is
  \<open>wipeRecursively(path)\<close>, which leaves nothing below the directory, and
  \<open>exists(path)\<close>. \<^verbatim>\<open>platform.maybe_mkdir\<close> has no effect on a map from
  full file names to contents.
\<close>

definition delete_recursively :: "string \<Rightarrow> (string \<rightharpoonup> string) \<Rightarrow> (string \<rightharpoonup> string)" where
  "delete_recursively dir fls = (\<lambda>p. if prefix (dir @ ''/'') p then None else fls p)"

definition file_exists :: "string \<Rightarrow> 'hd keystore \<Rightarrow> bool" where
  "file_exists pth s = (files s pth \<noteq> None)"

text \<open>
  Reading \<^verbatim>\<open>self.keys[name]\<close> where bytes, respectively a private key, are used. The
  lookup of a missing name raises \<^verbatim>\<open>KeyError\<close>. An entry of the other kind, which
  \<open>derive_keys\<close> never writes under these names, is reported as a \<^verbatim>\<open>TypeError\<close>.
\<close>

definition key_bytes :: "(string \<rightharpoonup> keyval) \<Rightarrow> string \<Rightarrow> error + string" where
  "key_bytes ks name =
     (case ks name of
        None \<Rightarrow> Inl (KeyError name)
      | Some (Bytes b) \<Rightarrow> Inr b
      | Some (PrivateKey k) \<Rightarrow> Inl (TypeError ''bytes expected''))"

definition key_priv :: "(string \<rightharpoonup> keyval) \<Rightarrow> string \<Rightarrow> error + string" where
  "key_priv ks name =
     (case ks name of
        None \<Rightarrow> Inl (KeyError name)
      | Some (PrivateKey k) \<Rightarrow> Inr k
      | Some (Bytes b) \<Rightarrow> Inl (TypeError ''private key expected''))"

section \<open>Key derivation\<close>

definition derive_keys ::
  "('sig, 'pub, 'hd) prims \<Rightarrow> string \<Rightarrow> string option \<Rightarrow> (string \<rightharpoonup> keyval)" where
  "derive_keys P secret pn =
     (let ks = [''secret'' \<mapsto> Bytes secret,
                ''ecdsa'' \<mapsto> PrivateKey (sha256 P (''ecdsa'' @ secret)),
                ''hmac'' \<mapsto> Bytes (sha256 P (''hmac'' @ secret)),
                ''auth'' \<mapsto> Bytes (sha256 P (''auth'' @ secret))]
      in case pn of
           None \<Rightarrow> ks
         | Some p \<Rightarrow>
             (let pin_key = sha256 P (''keys'' @ secret @ p)
              in ks(''pin_aes'' \<mapsto> Bytes (sha256 P (''aes'' @ pin_key)),
                    ''pin_hmac'' \<mapsto> Bytes (sha256 P (''hmac'' @ pin_key)),
                    ''pin_ecdsa'' \<mapsto> PrivateKey (sha256 P (''ecdsa'' @ pin_key)))))"

section \<open>The signed-file helpers\<close>

text \<open>
  An operation takes the store and returns the exception it raised or its value, and the
  store as it is left: a raise keeps every assignment and file write made before it.
  Writing a file always succeeds in the model.
\<close>

definition sign_to_file ::
  "('sig, 'pub, 'hd) prims \<Rightarrow> string \<Rightarrow> string \<Rightarrow> string option \<Rightarrow> 'hd keystore
     \<Rightarrow> (error + unit) \<times> 'hd keystore" where
  "sign_to_file P data pth key s =
     (case (case key of None \<Rightarrow> idkey s | Some k \<Rightarrow> Some k) of
        None \<Rightarrow> (Inl (KeyStoreError ''Pass the key please''), s)
      | Some k \<Rightarrow>
          (let h = sha256 P data;
               sg = ec_sign P k h
           in (Inr (), s\<lparr>files := (files s)(pth \<mapsto> sig_serialize P sg)\<rparr>)))"

definition verify_file ::
  "('sig, 'pub, 'hd) prims \<Rightarrow> string \<Rightarrow> string option \<Rightarrow> 'hd keystore \<Rightarrow> error + string" where
  "verify_file P pth key s =
     (case (case key of None \<Rightarrow> idkey s | Some k \<Rightarrow> Some k) of
        None \<Rightarrow> Inl (KeyStoreError ''Pass the key please'')
      | Some k \<Rightarrow>
          (case files s pth of
             None \<Rightarrow> Inl (OSError pth)
           | Some data \<Rightarrow>
               (let h = sha256 P data
                in case files s (pth @ ''.sig'') of
                     None \<Rightarrow> Inl (OSError (pth @ ''.sig''))
                   | Some raw \<Rightarrow>
                       (case sig_parse P raw of
                          None \<Rightarrow> Inl (ValueError ''bad signature encoding'')
                        | Some sg \<Rightarrow>
                            (let pub = get_public_key P k
                             in if \<not> pub_verify P pub sg h
                                then Inl (KeyStoreError ''Signature is invalid!'')
                                else Inr data)))))"

section \<open>Mnemonic\<close>

definition load_mnemonic ::
  "('sig, 'pub, 'hd) prims \<Rightarrow> string option \<Rightarrow> string \<Rightarrow> 'hd keystore
     \<Rightarrow> (error + unit) \<times> 'hd keystore" where
  "load_mnemonic P m password s =
     (case (case m of
              None \<Rightarrow> Inr s
            | Some mn \<Rightarrow>
                (let s1 = s\<lparr>mnemonic := Some (strip mn)\<rparr>
                 in if \<not> mnemonic_is_valid P (strip mn)
                    then Inl (KeyStoreError ''Invalid mnemonic'', s1)
                    else Inr s1)) of
        Inl (e, s1) \<Rightarrow> (Inl e, s1)
      | Inr s1 \<Rightarrow>
          (case mnemonic s1 of
             None \<Rightarrow> (Inl (TypeError ''mnemonic is None''), s1)
           | Some mn \<Rightarrow>
               (let seed = mnemonic_to_seed P mn password;
                    r = hd_from_seed P seed
                in (Inr (),
                    s1\<lparr>root := Some r,
                       fingerprint := Some (hd_fingerprint P (hd_child P r 0 False)),
                       idkey := Some (hd_key P (hd_child P r 0x1D True))\<rparr>))))"

section \<open>Secret and PIN state\<close>

definition wipe :: "string \<Rightarrow> 'hd keystore \<Rightarrow> 'hd keystore" where
  "wipe pth s = s\<lparr>files := delete_recursively pth (files s)\<rparr>"

definition wiped_msg :: "error \<Rightarrow> string" where
  "wiped_msg e =
     ''Something went terribly wrong!'' @ [CHR 0x0A] @ ''Device is wiped!'' @ [CHR 0x0A] @ str_exn e"

definition load_state ::
  "('sig, 'pub, 'hd) prims \<Rightarrow> 'hd keystore \<Rightarrow> (error + unit) \<times> 'hd keystore" where
  "load_state P s =
     (case (case key_priv (keys s) ''ecdsa'' of
              Inl e \<Rightarrow> Inl e
            | Inr k \<Rightarrow>
                (case verify_file P (path s @ ''/pin.json'') (Some k) s of
                   Inl e \<Rightarrow> Inl e
                 | Inr data \<Rightarrow>
                     (case json_loads P data of
                        None \<Rightarrow> Inl (ValueError ''syntax error in JSON'')
                      | Some st \<Rightarrow> Inr st))) of
        Inr st \<Rightarrow> (Inr (), s\<lparr>state := st\<rparr>)
      | Inl e \<Rightarrow> (Inl (CriticalErrorWipeImmediately (wiped_msg e)), wipe (path s) s))"

definition create_new_secret ::
  "('sig, 'pub, 'hd) prims \<Rightarrow> string \<Rightarrow> 'hd keystore \<Rightarrow> (error + string) \<times> 'hd keystore" where
  "create_new_secret P pth s =
     (let secret = get_random_bytes P 32;
          s1 = s\<lparr>files := (files s)(pth @ ''/secret'' \<mapsto> secret)\<rparr>;
          st = \<lparr>pin = None, pin_attempts_left = 10, pin_attempts_max = 10\<rparr>;
          data = json_dumps P (Some st)
      in case key_priv (derive_keys P secret None) ''ecdsa'' of
           Inl e \<Rightarrow> (Inl e, s1)
         | Inr signing_key \<Rightarrow>
             (case sign_to_file P data (pth @ ''/pin.json.sig'') (Some signing_key) s1 of
                (Inl e, s2) \<Rightarrow> (Inl e, s2)
              | (Inr u, s2) \<Rightarrow>
                  (Inr secret, s2\<lparr>files := (files s2)(pth @ ''/pin.json'' \<mapsto> data)\<rparr>)))"

definition load_secret ::
  "('sig, 'pub, 'hd) prims \<Rightarrow> string \<Rightarrow> 'hd keystore \<Rightarrow> (error + unit) \<times> 'hd keystore" where
  "load_secret P pth s =
     (case (case files s (pth @ ''/secret'') of
              Some secret \<Rightarrow> (Inr secret, s)
            | None \<Rightarrow> create_new_secret P pth s) of
        (Inl e, s1) \<Rightarrow> (Inl e, s1)
      | (Inr secret, s1) \<Rightarrow> (Inr (), s1\<lparr>keys := keys s1 ++ derive_keys P secret None\<rparr>))"

definition init ::
  "('sig, 'pub, 'hd) prims \<Rightarrow> 'hd keystore \<Rightarrow> (error + unit) \<times> 'hd keystore" where
  "init P s =
     (case load_secret P (path s) s of
        (Inl e, s1) \<Rightarrow> (Inl e, s1)
      | (Inr u, s1) \<Rightarrow> load_state P s1)"

definition save_state ::
  "('sig, 'pub, 'hd) prims \<Rightarrow> 'hd keystore \<Rightarrow> (error + unit) \<times> 'hd keystore" where
  "save_state P s =
     (let data = json_dumps P (state s);
          s1 = s\<lparr>files := (files s)(path s @ ''/pin.json'' \<mapsto> data)\<rparr>
      in case key_priv (keys s1) ''ecdsa'' of
           Inl e \<Rightarrow> (Inl e, s1)
         | Inr k \<Rightarrow>
             (case sign_to_file P data (path s1 @ ''/pin.json.sig'') (Some k) s1 of
                (Inl e, s2) \<Rightarrow> (Inl e, s2)
              | (Inr u, s2) \<Rightarrow> load_state P s2))"

section \<open>PIN authentication\<close>

definition is_pin_set :: "'hd keystore \<Rightarrow> error + bool" where
  "is_pin_set s =
     (case state s of
        None \<Rightarrow> Inl (TypeError ''state is None'')
      | Some st \<Rightarrow> Inr (pin st \<noteq> None))"

definition is_locked :: "'hd keystore \<Rightarrow> error + bool" where
  "is_locked s =
     (case is_pin_set s of
        Inl e \<Rightarrow> Inl e
      | Inr b \<Rightarrow> Inr (b \<and> priv_is_locked s))"

definition no_attempts_msg :: string where
  "no_attempts_msg = ''No more PIN attempts!'' @ [CHR 0x0A] @ ''Wipe!''"

definition invalid_pin_msg :: "int \<Rightarrow> int \<Rightarrow> string" where
  "invalid_pin_msg left mx =
     ''Invalid PIN!'' @ [CHR 0x0A] @ str_int left @ '' of '' @ str_int mx @ '' attempts left...''"

definition unlock ::
  "('sig, 'pub, 'hd) prims \<Rightarrow> string \<Rightarrow> 'hd keystore \<Rightarrow> (error + unit) \<times> 'hd keystore" where
  "unlock P pn s =
     (case state s of
        None \<Rightarrow> (Inl (TypeError ''state is None''), s)
      | Some st \<Rightarrow>
          (case save_state P (s\<lparr>state := Some (st\<lparr>pin_attempts_left := pin_attempts_left st - 1\<rparr>)\<rparr>) of
             (Inl e, s1) \<Rightarrow> (Inl e, s1)
           | (Inr u, s1) \<Rightarrow>
               (case state s1 of
                  None \<Rightarrow> (Inl (TypeError ''state is None''), s1)
                | Some st1 \<Rightarrow>
                    if pin_attempts_left st1 \<le> 0
                    then (Inl (CriticalErrorWipeImmediately no_attempts_msg), wipe (path s1) s1)
                    else
                      (case key_bytes (keys s1) ''hmac'' of
                         Inl e \<Rightarrow> (Inl e, s1)
                       | Inr hk \<Rightarrow>
                           (let pin_hmac = hexlify (hmac_sha256 P hk pn)
                            in if Some pin_hmac \<noteq> pin st1
                               then (Inl (PinError (invalid_pin_msg (pin_attempts_left st1)
                                                      (pin_attempts_max st1))), s1)
                               else
                                 (case save_state P
                                         (s1\<lparr>state := Some (st1\<lparr>pin_attempts_left := pin_attempts_max st1\<rparr>),
                                             priv_is_locked := False\<rparr>) of
                                    (Inl e, s2) \<Rightarrow> (Inl e, s2)
                                  | (Inr u, s2) \<Rightarrow>
                                      (case key_bytes (keys s2) ''secret'' of
                                         Inl e \<Rightarrow> (Inl e, s2)
                                       | Inr secret \<Rightarrow>
                                           (Inr (),
                                            s2\<lparr>keys := keys s2 ++ derive_keys P secret (Some pn)\<rparr>))))))))"

definition lock :: "'hd keystore \<Rightarrow> (error + bool) \<times> 'hd keystore" where
  "lock s = (let s1 = s\<lparr>priv_is_locked := True\<rparr> in (is_locked s1, s1))"

definition unset_pin ::
  "('sig, 'pub, 'hd) prims \<Rightarrow> 'hd keystore \<Rightarrow> (error + unit) \<times> 'hd keystore" where
  "unset_pin P s =
     (case state s of
        None \<Rightarrow> (Inl (TypeError ''state is None''), s)
      | Some st \<Rightarrow> save_state P (s\<lparr>state := Some (st\<lparr>pin := None\<rparr>)\<rparr>))"

definition set_pin ::
  "('sig, 'pub, 'hd) prims \<Rightarrow> string \<Rightarrow> 'hd keystore \<Rightarrow> (error + unit) \<times> 'hd keystore" where
  "set_pin P pn s =
     (case key_bytes (keys s) ''hmac'' of
        Inl e \<Rightarrow> (Inl e, s)
      | Inr hk \<Rightarrow>
          (case state s of
             None \<Rightarrow> (Inl (TypeError ''state is None''), s)
           | Some st \<Rightarrow>
               (case save_state P (s\<lparr>state := Some (st\<lparr>pin := Some (hexlify (hmac_sha256 P hk pn))\<rparr>)\<rparr>) of
                  (Inl e, s1) \<Rightarrow> (Inl e, s1)
                | (Inr u, s1) \<Rightarrow> unlock P pn s1)))"

section \<open>Reckless storage\<close>

definition load ::
  "('sig, 'pub, 'hd) prims \<Rightarrow> 'hd keystore \<Rightarrow> (error + unit) \<times> 'hd keystore" where
  "load P s =
     (case is_locked s of
        Inl e \<Rightarrow> (Inl e, s)
      | Inr lk \<Rightarrow>
          if lk then (Inl (KeyStoreError ''Keystore is locked''), s)
          else if \<not> file_exists (path s @ ''/reckless'') s
          then (Inl (KeyStoreError ''Key is not saved''), s)
          else
            (case key_priv (keys s) ''pin_ecdsa'' of
               Inl e \<Rightarrow> (Inl e, s)
             | Inr k \<Rightarrow>
                 (case verify_file P (path s @ ''/reckless'') (Some k) s of
                    Inl e \<Rightarrow> (Inl e, s)
                  | Inr data \<Rightarrow>
                      (case key_bytes (keys s) ''pin_aes'' of
                         Inl e \<Rightarrow> (Inl e, s)
                       | Inr ak \<Rightarrow>
                           (case decrypt P data ak of
                              None \<Rightarrow> (Inl (ValueError ''decryption failed''), s)
                            | Some m \<Rightarrow> load_mnemonic P (Some m) [] s)))))"

definition save ::
  "('sig, 'pub, 'hd) prims \<Rightarrow> 'hd keystore \<Rightarrow> (error + unit) \<times> 'hd keystore" where
  "save P s =
     (case is_locked s of
        Inl e \<Rightarrow> (Inl e, s)
      | Inr lk \<Rightarrow>
          if lk then (Inl (KeyStoreError ''Keystore is locked''), s)
          else
            (case mnemonic s of
               None \<Rightarrow> (Inl (KeyStoreError ''Recovery phrase is not loaded''), s)
             | Some mn \<Rightarrow>
                 (case key_bytes (keys s) ''pin_aes'' of
                    Inl e \<Rightarrow> (Inl e, s)
                  | Inr ak \<Rightarrow>
                      (let ct = encrypt P mn ak;
                           s1 = s\<lparr>files := (files s)(path s @ ''/reckless'' \<mapsto> ct)\<rparr>
                       in case key_priv (keys s1) ''pin_ecdsa'' of
                            Inl e \<Rightarrow> (Inl e, s1)
                          | Inr k \<Rightarrow>
                              (case sign_to_file P ct (path s1 @ ''/reckless.sig'') (Some k) s1 of
                                 (Inl e, s2) \<Rightarrow> (Inl e, s2)
                               | (Inr u, s2) \<Rightarrow> load P s2)))))"

definition change_pin ::
  "('sig, 'pub, 'hd) prims \<Rightarrow> string \<Rightarrow> string \<Rightarrow> 'hd keystore \<Rightarrow> (error + unit) \<times> 'hd keystore" where
  "change_pin P old_pin new_pin s =
     (case unlock P old_pin s of
        (Inl e, s1) \<Rightarrow> (Inl e, s1)
      | (Inr u, s1) \<Rightarrow>
          (case (if file_exists (path s1 @ ''/reckless'') s1
                 then (case key_priv (keys s1) ''pin_ecdsa'' of
                         Inl e \<Rightarrow> Inl e
                       | Inr k \<Rightarrow>
                           (case verify_file P (path s1 @ ''/reckless'') (Some k) s1 of
                              Inl e \<Rightarrow> Inl e
                            | Inr ct \<Rightarrow>
                                (case key_bytes (keys s1) ''pin_aes'' of
                                   Inl e \<Rightarrow> Inl e
                                 | Inr ak \<Rightarrow>
                                     (case decrypt P ct ak of
                                        None \<Rightarrow> Inl (ValueError ''decryption failed'')
                                      | Some pt \<Rightarrow> Inr (Some pt)))))
                 else Inr None) of
             Inl e \<Rightarrow> (Inl e, s1)
           | Inr data \<Rightarrow>
               (case set_pin P new_pin s1 of
                  (Inl e, s2) \<Rightarrow> (Inl e, s2)
                | (Inr u, s2) \<Rightarrow>
                    (case data of
                       None \<Rightarrow> (Inr (), s2)
                     | Some d \<Rightarrow>
                         (case key_bytes (keys s2) ''pin_aes'' of
                            Inl e \<Rightarrow> (Inl e, s2)
                          | Inr ak \<Rightarrow>
                              (let ct = encrypt P d ak;
                                   s3 = s2\<lparr>files := (files s2)(path s2 @ ''/reckless'' \<mapsto> ct)\<rparr>
                               in case key_priv (keys s3) ''pin_ecdsa'' of
                                    Inl e \<Rightarrow> (Inl e, s3)
                                  | Inr k \<Rightarrow>
                                      sign_to_file P ct (path s3 @ ''/reckless.sig'') (Some k) s3))))))"

section \<open>Anti-phishing word\<close>

definition get_auth_word ::
  "('sig, 'pub, 'hd) prims \<Rightarrow> string \<Rightarrow> 'hd keystore \<Rightarrow> error + string" where
  "get_auth_word P pin_part s =
     (case key_bytes (keys s) ''auth'' of
        Inl e \<Rightarrow> Inl e
      | Inr ak \<Rightarrow>
          (let h = hmac_sha256 P ak pin_part
           in if length (WORDLIST P) = 0 then Inl (ZeroDivisionError ''divide by zero'')
              else (let word_number = int_from_bytes_big (take 2 h) mod length (WORDLIST P)
                    in Inr (WORDLIST P ! word_number))))"

section \<open>Contracts of the collaborators\<close>

text \<open>
  What the claims assume of the signature primitive, of JSON and of the cipher: a
  signature made with a key verifies under that key's public key and survives
  serialisation; a dumped PIN state loads back; a ciphertext decrypts under its key.
\<close>

definition sig_ok :: "('sig, 'pub, 'hd) prims \<Rightarrow> bool" where
  "sig_ok P =
     ((\<forall>k h. pub_verify P (get_public_key P k) (ec_sign P k h) h)
      \<and> (\<forall>sg. sig_parse P (sig_serialize P sg) = Some sg))"

definition json_ok :: "('sig, 'pub, 'hd) prims \<Rightarrow> bool" where
  "json_ok P = (\<forall>v. json_loads P (json_dumps P v) = Some v)"

definition cipher_ok :: "('sig, 'pub, 'hd) prims \<Rightarrow> bool" where
  "cipher_ok P = (\<forall>d k. decrypt P (encrypt P d k) k = Some d)"

text \<open>
  The two files of the signed PIN-state record as \<open>save_state\<close> writes them for the
  state \<open>v\<close> under the signing key \<open>k\<close>, and the verification tag of a PIN.
\<close>

definition pin_files ::
  "('sig, 'pub, 'hd) prims \<Rightarrow> string \<Rightarrow> pin_state option \<Rightarrow> string \<Rightarrow> (string \<rightharpoonup> string)
     \<Rightarrow> (string \<rightharpoonup> string)" where
  "pin_files P k v dir fls =
     fls(dir @ ''/pin.json'' \<mapsto> json_dumps P v,
         dir @ ''/pin.json.sig'' \<mapsto> sig_serialize P (ec_sign P k (sha256 P (json_dumps P v))))"

definition pin_tag :: "('sig, 'pub, 'hd) prims \<Rightarrow> string \<Rightarrow> string \<Rightarrow> string" where
  "pin_tag P hk pn = hexlify (hmac_sha256 P hk pn)"

text \<open>
  A caller that tries one PIN after another, catching what each call raises: the
  outcome of every call with the store it leaves.
\<close>

fun unlock_attempts ::
  "('sig, 'pub, 'hd) prims \<Rightarrow> string list \<Rightarrow> 'hd keystore \<Rightarrow> ((error + unit) \<times> 'hd keystore) list" where
  "unlock_attempts P [] s = []"
| "unlock_attempts P (p # ps) s = (let r = unlock P p s in r # unlock_attempts P ps (snd r))"

section \<open>A small instance of the collaborators\<close>

text \<open>
  Concrete stand-ins on which the operations can be run: the hash is the identity, a
  signature is the key followed by the digest, the cipher prefixes the key, and the PIN
  state is written with its two counters in unary.
\<close>

definition enc_int :: "int \<Rightarrow> string" where
  "enc_int i = (if i < 0 then CHR ''-'' else CHR ''+'') # replicate (nat \<bar>i\<bar>) (CHR ''1'') @ ''.''"

definition dec_int :: "string \<Rightarrow> (int \<times> string) option" where
  "dec_int s =
     (case s of
        [] \<Rightarrow> None
      | c # r \<Rightarrow>
          (if c = CHR ''-'' \<or> c = CHR ''+''
           then (case dropWhile (\<lambda>x. x = CHR ''1'') r of
                   [] \<Rightarrow> None
                 | d # r' \<Rightarrow>
                     (if d = CHR ''.''
                      then Some ((if c = CHR ''-'' then - 1 else 1)
                                   * int (length (takeWhile (\<lambda>x. x = CHR ''1'') r)), r')
                      else None))
           else None))"

definition toy_dumps :: "pin_state option \<Rightarrow> string" where
  "toy_dumps v =
     (case v of
        None \<Rightarrow> ''null''
      | Some st \<Rightarrow>
          CHR ''{'' # enc_int (pin_attempts_left st) @ enc_int (pin_attempts_max st)
            @ (case pin st of None \<Rightarrow> ''N'' | Some t \<Rightarrow> CHR ''S'' # t))"

definition toy_loads :: "string \<Rightarrow> pin_state option option" where
  "toy_loads s =
     (if s = ''null'' then Some None
      else (case s of
              [] \<Rightarrow> None
            | c # r \<Rightarrow>
                (if c \<noteq> CHR ''{'' then None
                 else (case dec_int r of
                         None \<Rightarrow> None
                       | Some (l, r1) \<Rightarrow>
                           (case dec_int r1 of
                              None \<Rightarrow> None
                            | Some (m, r2) \<Rightarrow>
                                (case r2 of
                                   [] \<Rightarrow> None
                                 | t # r3 \<Rightarrow>
                                     (if t = CHR ''N'' \<and> r3 = []
                                      then Some (Some \<lparr>pin = None, pin_attempts_left = l,
                                                        pin_attempts_max = m\<rparr>)
                                      else if t = CHR ''S''
                                      then Some (Some \<lparr>pin = Some r3, pin_attempts_left = l,
                                                        pin_attempts_max = m\<rparr>)
                                      else None)))))))"

definition toy :: "(string, string, string) prims" where
  "toy =
     \<lparr>sha256 = (\<lambda>x. x),
      hmac_sha256 = (\<lambda>k m. k @ m),
      ec_sign = (\<lambda>k h. k @ h),
      sig_serialize = (\<lambda>sg. sg),
      sig_parse = (\<lambda>raw. Some raw),
      get_public_key = (\<lambda>k. k),
      pub_verify = (\<lambda>pub sg h. sg = pub @ h),
      encrypt = (\<lambda>d k. k @ d),
      decrypt = (\<lambda>ct k. if prefix k ct then Some (drop (length k) ct) else None),
      json_dumps = toy_dumps,
      json_loads = toy_loads,
      mnemonic_is_valid = (\<lambda>m. m \<noteq> []),
      mnemonic_to_seed = (\<lambda>m pw. m @ pw),
      hd_from_seed = (\<lambda>seed. seed),
      hd_child = (\<lambda>r i hardened. r),
      hd_fingerprint = (\<lambda>r. take 4 r),
      hd_key = (\<lambda>r. r),
      WORDLIST = map str_nat [0..<2048],
      get_random_bytes = (\<lambda>n. replicate n (CHR ''r''))\<rparr>"

text \<open>
  What the \<open>i\<close>-th of a run of failing calls (counted from 0) leaves, from a state \<open>st\<close>:
  the counter lowered by \<open>i + 1\<close> and persisted, and \<^verbatim>\<open>PinError\<close> while the counter
  stays positive, the wipe once it does not.
\<close>

definition attempt_outcome ::
  "('sig, 'pub, 'hd) prims \<Rightarrow> string \<Rightarrow> pin_state \<Rightarrow> 'hd keystore \<Rightarrow> nat
     \<Rightarrow> (error + unit) \<times> 'hd keystore" where
  "attempt_outcome P k st s i =
     (let st' = st\<lparr>pin_attempts_left := pin_attempts_left st - int i - 1\<rparr>;
          fls = pin_files P k (Some st') (path s) (files s)
      in if 0 < pin_attempts_left st'
         then (Inl (PinError (invalid_pin_msg (pin_attempts_left st') (pin_attempts_max st))),
               s\<lparr>state := Some st', files := fls\<rparr>)
         else (Inl (CriticalErrorWipeImmediately no_attempts_msg),
               s\<lparr>state := Some st', files := delete_recursively (path s) fls\<rparr>))"

text \<open>
  A store on the small instance. The flash holds the secret \<open>S\<close> and the signed PIN
  state of a device provisioned with three attempts and no PIN; the store is initialised
  from it, the PIN 1234 is set, and the store is locked.
\<close>

definition demo_flash :: "string \<rightharpoonup> string" where
  "demo_flash =
     pin_files toy ''ecdsaS'' (Some \<lparr>pin = None, pin_attempts_left = 3, pin_attempts_max = 3\<rparr>) ''d''
       [''d/secret'' \<mapsto> ''S'']"

definition demo :: "string keystore" where
  "demo = snd (lock (snd (set_pin toy ''1234'' (snd (init toy (new_keystore ''d'' demo_flash))))))"

text \<open>The PIN state of that store.\<close>

definition demo_state :: pin_state where
  "demo_state = \<lparr>pin = Some (pin_tag toy ''hmacS'' ''1234''), pin_attempts_left = 3, pin_attempts_max = 3\<rparr>"

text \<open>
  The base keys as \<open>load_secret\<close> leaves them in \<^verbatim>\<open>self.keys\<close> for the secret
  \<open>secret\<close>.
\<close>

definition base_keys :: "('sig, 'pub, 'hd) prims \<Rightarrow> string \<Rightarrow> 'hd keystore \<Rightarrow> bool" where
  "base_keys P secret s =
     (keys s ''secret'' = Some (Bytes secret)
      \<and> keys s ''ecdsa'' = Some (PrivateKey (sha256 P (''ecdsa'' @ secret)))
      \<and> keys s ''hmac'' = Some (Bytes (sha256 P (''hmac'' @ secret)))
      \<and> keys s ''auth'' = Some (Bytes (sha256 P (''auth'' @ secret))))"

text \<open>
  The PIN state that \<open>create_new_secret\<close> writes, and the store of the small instance
  right after its first \<open>init\<close> on an empty flash: no PIN has been set.
\<close>

definition fresh_state :: pin_state where
  "fresh_state = \<lparr>pin = None, pin_attempts_left = 10, pin_attempts_max = 10\<rparr>"

definition provisioned :: "string keystore" where
  "provisioned = snd (init toy (new_keystore ''d'' Map.empty))"

text \<open>The small instance with a verifier that rejects every signature.\<close>

definition rejecting :: "(string, string, string) prims" where
  "rejecting = toy\<lparr>pub_verify := (\<lambda>pub sg h. False)\<rparr>"

text \<open>
  The PIN-bound keys as \<open>derive_keys\<close> computes them, the two files of the reckless
  blob as \<open>save\<close> writes them for the mnemonic \<open>m\<close> under the keys of the PIN, and
  the store after \<open>load_mnemonic\<close> has accepted \<open>m\<close> with the empty password.
\<close>

definition pin_aes_key :: "('sig, 'pub, 'hd) prims \<Rightarrow> string \<Rightarrow> string \<Rightarrow> string" where
  "pin_aes_key P secret pn = sha256 P (''aes'' @ sha256 P (''keys'' @ secret @ pn))"

definition pin_ecdsa_key :: "('sig, 'pub, 'hd) prims \<Rightarrow> string \<Rightarrow> string \<Rightarrow> string" where
  "pin_ecdsa_key P secret pn = sha256 P (''ecdsa'' @ sha256 P (''keys'' @ secret @ pn))"

definition reckless_files ::
  "('sig, 'pub, 'hd) prims \<Rightarrow> string \<Rightarrow> string \<Rightarrow> string \<Rightarrow> string \<Rightarrow> (string \<rightharpoonup> string)
     \<Rightarrow> (string \<rightharpoonup> string)" where
  "reckless_files P secret pn m dir fls =
     fls(dir @ ''/reckless'' \<mapsto> encrypt P m (pin_aes_key P secret pn),
         dir @ ''/reckless.sig'' \<mapsto>
           sig_serialize P (ec_sign P (pin_ecdsa_key P secret pn)
                              (sha256 P (encrypt P m (pin_aes_key P secret pn)))))"

definition loaded_mnemonic :: "('sig, 'pub, 'hd) prims \<Rightarrow> string \<Rightarrow> 'hd keystore \<Rightarrow> 'hd keystore" where
  "loaded_mnemonic P m s =
     s\<lparr>mnemonic := Some (strip m),
       root := Some (hd_from_seed P (mnemonic_to_seed P (strip m) [])),
       fingerprint := Some (hd_fingerprint P
                              (hd_child P (hd_from_seed P (mnemonic_to_seed P (strip m) [])) 0 False)),
       idkey := Some (hd_key P
                        (hd_child P (hd_from_seed P (mnemonic_to_seed P (strip m) [])) 0x1D True))\<rparr>"

text \<open>
  The store \<open>demo\<close> unlocked with its PIN, a mnemonic loaded and saved; and the same
  store after the saved ciphertext was overwritten on flash.
\<close>

definition vault :: "string keystore" where
  "vault = snd (save toy (snd (load_mnemonic toy (Some ''zoo zoo'') []
                                 (snd (unlock toy ''1234'' demo)))))"

definition tampered :: "string keystore" where
  "tampered = vault\<lparr>files := (files vault)(''d/reckless'' \<mapsto> ''garbage'')\<rparr>"

text \<open>
  The outcome of a fatal wipe caused by the exception \<open>e\<close>: everything under the store
  directory is deleted and \<^verbatim>\<open>CriticalErrorWipeImmediately\<close> is raised with the text of
  \<open>load_state\<close>.
\<close>

definition fatal_wipe :: "error \<Rightarrow> 'hd keystore \<Rightarrow> (error + unit) \<times> 'hd keystore" where
  "fatal_wipe e s =
     (Inl (CriticalErrorWipeImmediately (wiped_msg e)),
      s\<lparr>files := delete_recursively (path s) (files s)\<rparr>)"


section \<open>Properties\<close>

subsection \<open>Facts about the operations\<close>

lemma sig_okD:
  "sig_ok P \<Longrightarrow> pub_verify P (get_public_key P k) (ec_sign P k h) h"
  "sig_ok P \<Longrightarrow> sig_parse P (sig_serialize P sg) = Some sg"
  by (simp_all add: sig_ok_def)

lemma json_okD: "json_ok P \<Longrightarrow> json_loads P (json_dumps P v) = Some v"
  by (simp add: json_ok_def)

lemma pin_files_simps:
  "pin_files P k v dir fls (dir @ ''/pin.json'') = Some (json_dumps P v)"
  "pin_files P k v dir fls (dir @ ''/pin.json.sig'') =
     Some (sig_serialize P (ec_sign P k (sha256 P (json_dumps P v))))"
  "pin_files P k v dir fls (dir @ ''/secret'') = fls (dir @ ''/secret'')"
  "pin_files P k v dir fls (dir @ ''/reckless'') = fls (dir @ ''/reckless'')"
  "pin_files P k v dir fls (dir @ ''/reckless.sig'') = fls (dir @ ''/reckless.sig'')"
  by (simp_all add: pin_files_def)

lemma pin_files_overwrite:
  "pin_files P k v dir (pin_files P k' v' dir fls) = pin_files P k v dir fls"
  by (auto simp: pin_files_def)

lemma load_state_cases:
  "(\<exists>v. load_state P s = (Inr (), s\<lparr>state := v\<rparr>))
   \<or> (\<exists>e. load_state P s = (Inl (CriticalErrorWipeImmediately (wiped_msg e)), wipe (path s) s))"
  by (auto simp: load_state_def split: sum.splits option.splits)

lemma save_state_reads_back:
  assumes "keys s ''ecdsa'' = Some (PrivateKey k)"
  shows "save_state P s = load_state P (s\<lparr>files := pin_files P k (state s) (path s) (files s)\<rparr>)"
  using assms by (simp add: save_state_def sign_to_file_def key_priv_def Let_def pin_files_def)

lemma load_state_signed:
  assumes "sig_ok P" "json_ok P" "keys s ''ecdsa'' = Some (PrivateKey k)"
    and "files s (path s @ ''/pin.json'') = Some (json_dumps P v)"
    and "files s (path s @ ''/pin.json.sig'') =
           Some (sig_serialize P (ec_sign P k (sha256 P (json_dumps P v))))"
  shows "load_state P s = (Inr (), s\<lparr>state := v\<rparr>)"
  using assms
  by (simp add: load_state_def verify_file_def key_priv_def Let_def sig_okD json_okD)

lemma save_state_ok:
  assumes "sig_ok P" "json_ok P" "keys s ''ecdsa'' = Some (PrivateKey k)"
  shows "save_state P s = (Inr (), s\<lparr>files := pin_files P k (state s) (path s) (files s)\<rparr>)"
proof -
  let ?s1 = "s\<lparr>files := pin_files P k (state s) (path s) (files s)\<rparr>"
  have "load_state P ?s1 = (Inr (), ?s1\<lparr>state := state s\<rparr>)"
    using assms by (intro load_state_signed) (simp_all add: pin_files_simps)
  then show ?thesis
    using assms(3) by (simp add: save_state_reads_back)
qed

lemma unlock_exhausted:
  assumes "sig_ok P" "json_ok P" "state s = Some st" "keys s ''ecdsa'' = Some (PrivateKey k)"
    and "pin_attempts_left st \<le> 1"
  shows "unlock P pn s =
           (Inl (CriticalErrorWipeImmediately no_attempts_msg),
            s\<lparr>state := Some (st\<lparr>pin_attempts_left := pin_attempts_left st - 1\<rparr>),
              files := delete_recursively (path s)
                         (pin_files P k (Some (st\<lparr>pin_attempts_left := pin_attempts_left st - 1\<rparr>))
                            (path s) (files s))\<rparr>)"
  using assms by (simp add: unlock_def save_state_ok wipe_def)

lemma unlock_mismatch:
  assumes "sig_ok P" "json_ok P" "state s = Some st" "keys s ''ecdsa'' = Some (PrivateKey k)"
    and "keys s ''hmac'' = Some (Bytes hk)"
    and "1 < pin_attempts_left st"
    and "pin st \<noteq> Some (pin_tag P hk pn)"
  shows "unlock P pn s =
           (Inl (PinError (invalid_pin_msg (pin_attempts_left st - 1) (pin_attempts_max st))),
            s\<lparr>state := Some (st\<lparr>pin_attempts_left := pin_attempts_left st - 1\<rparr>),
              files := pin_files P k (Some (st\<lparr>pin_attempts_left := pin_attempts_left st - 1\<rparr>))
                         (path s) (files s)\<rparr>)"
  using assms by (auto simp: unlock_def save_state_ok key_bytes_def pin_tag_def)

lemma unlock_match:
  assumes "sig_ok P" "json_ok P" "state s = Some st" "keys s ''ecdsa'' = Some (PrivateKey k)"
    and "keys s ''hmac'' = Some (Bytes hk)" "keys s ''secret'' = Some (Bytes secret)"
    and "1 < pin_attempts_left st"
    and "pin st = Some (pin_tag P hk pn)"
  shows "unlock P pn s =
           (Inr (),
            s\<lparr>state := Some (st\<lparr>pin_attempts_left := pin_attempts_max st\<rparr>),
              priv_is_locked := False,
              files := pin_files P k (Some (st\<lparr>pin_attempts_left := pin_attempts_max st\<rparr>))
                         (path s) (files s),
              keys := keys s ++ derive_keys P secret (Some pn)\<rparr>)"
  using assms
  by (simp add: unlock_def save_state_ok key_bytes_def pin_tag_def pin_files_overwrite)

lemma attempts_trace:
  assumes "sig_ok P" "json_ok P"
  shows "state s = Some st \<Longrightarrow> keys s ''ecdsa'' = Some (PrivateKey k) \<Longrightarrow>
         keys s ''hmac'' = Some (Bytes hk) \<Longrightarrow>
         (\<forall>p\<in>set pins. pin st \<noteq> Some (pin_tag P hk p)) \<Longrightarrow>
         int (length pins) \<le> pin_attempts_left st \<Longrightarrow>
         unlock_attempts P pins s = map (attempt_outcome P k st s) [0..<length pins]"
proof (induction pins arbitrary: s st)
  case Nil
  then show ?case by simp
next
  case (Cons p ps)
  let ?st1 = "st\<lparr>pin_attempts_left := pin_attempts_left st - 1\<rparr>"
  show ?case
  proof (cases "1 < pin_attempts_left st")
    case False
    then have one: "pin_attempts_left st \<le> 1" by simp
    have nil: "ps = []" using Cons.prems(5) one by (cases ps) auto
    note u = unlock_exhausted [OF assms Cons.prems(1,2) one, of p]
    show ?thesis using False by (simp add: nil attempt_outcome_def Let_def u)
  next
    case True
    let ?s1 = "s\<lparr>state := Some ?st1, files := pin_files P k (Some ?st1) (path s) (files s)\<rparr>"
    have wrong: "pin st \<noteq> Some (pin_tag P hk p)" using Cons.prems(4) by simp
    have u: "unlock P p s =
               (Inl (PinError (invalid_pin_msg (pin_attempts_left st - 1) (pin_attempts_max st))), ?s1)"
      by (rule unlock_mismatch [OF assms Cons.prems(1,2,3) True wrong])
    have ih: "unlock_attempts P ps ?s1 = map (attempt_outcome P k ?st1 ?s1) [0..<length ps]"
      using Cons.prems by (intro Cons.IH) auto
    have shift: "attempt_outcome P k ?st1 ?s1 i = attempt_outcome P k st s (Suc i)" for i
      by (simp add: attempt_outcome_def Let_def pin_files_overwrite algebra_simps)
    have first: "attempt_outcome P k st s 0 = unlock P p s"
      using True by (simp add: attempt_outcome_def Let_def u)
    have "unlock_attempts P (p # ps) s = unlock P p s # unlock_attempts P ps ?s1"
      by (simp add: Let_def u)
    also have "\<dots> = attempt_outcome P k st s 0
                    # map (\<lambda>i. attempt_outcome P k st s (Suc i)) [0..<length ps]"
      by (simp add: ih shift first)
    also have "\<dots> = map (attempt_outcome P k st s) [0..<length (p # ps)]"
      by (simp add: map_upt_Suc del: upt_Suc)
    finally show ?thesis .
  qed
qed

lemma hex_digit_inj:
  assumes "i < 16" "j < 16" "hex_digit i = hex_digit j"
  shows "i = j"
proof -
  have d: "distinct ''0123456789abcdef''" by simp
  have l: "length ''0123456789abcdef'' = 16" by simp
  from assms show ?thesis
    unfolding hex_digit_def using nth_eq_iff_index_eq [OF d, of i j] l by simp
qed

lemma hex_pair_inj:
  assumes "hex_digit (a div 16) = hex_digit (b div 16)"
    and "hex_digit (a mod 16) = hex_digit (b mod 16)"
    and "a < 256" "b < 256"
  shows "a = b"
proof -
  have "a div 16 = b div 16"
    using assms(1,3,4) by (intro hex_digit_inj) (simp_all add: div_less_iff_less_mult)
  moreover have "a mod 16 = b mod 16"
    using assms(2) by (intro hex_digit_inj) simp_all
  ultimately show ?thesis
    by (metis div_mult_mod_eq)
qed

lemma hexlify_Cons:
  "hexlify (c # cs) = hex_digit (of_char c div 16) # hex_digit (of_char c mod 16) # hexlify cs"
  by (simp add: hexlify_def)

lemma hexlify_inj: "hexlify a = hexlify b \<Longrightarrow> a = b"
proof (induction a arbitrary: b)
  case Nil
  then show ?case by (cases b) (simp_all add: hexlify_def)
next
  case (Cons x xs)
  then obtain y ys where b: "b = y # ys"
    by (cases b) (simp_all add: hexlify_def)
  from Cons.prems have h: "hex_digit (of_char x div 16) = hex_digit (of_char y div 16)"
      "hex_digit (of_char x mod 16) = hex_digit (of_char y mod 16)"
      "hexlify xs = hexlify ys"
    by (simp_all add: b hexlify_Cons)
  have "(of_char x :: nat) = of_char y"
    using h(1,2) by (rule hex_pair_inj) simp_all
  then have "x = y" by simp
  with Cons.IH [OF h(3)] b show ?case by simp
qed

lemma load_secret_base_keys:
  "\<exists>secret. load_secret P pth s = (Inr (), snd (load_secret P pth s))
     \<and> base_keys P secret (snd (load_secret P pth s))"
  by (cases "files s (pth @ ''/secret'')")
     (simp_all add: load_secret_def create_new_secret_def sign_to_file_def key_priv_def Let_def
        base_keys_def derive_keys_def)

lemma init_fresh:
  assumes "sig_ok P" "json_ok P" "files s (path s @ ''/secret'') = None"
  shows "init P s =
           (Inr (),
            s\<lparr>state := Some fresh_state,
              keys := keys s ++ derive_keys P (get_random_bytes P 32) None,
              files := pin_files P (sha256 P (''ecdsa'' @ get_random_bytes P 32)) (Some fresh_state)
                         (path s) ((files s)(path s @ ''/secret'' \<mapsto> get_random_bytes P 32))\<rparr>)"
proof -
  let ?secret = "get_random_bytes P 32"
  let ?k = "sha256 P (''ecdsa'' @ ?secret)"
  let ?fls = "pin_files P ?k (Some fresh_state) (path s) ((files s)(path s @ ''/secret'' \<mapsto> ?secret))"
  let ?s1 = "s\<lparr>keys := keys s ++ derive_keys P ?secret None, files := ?fls\<rparr>"
  have fls: "(files s)(path s @ ''/secret'' \<mapsto> ?secret,
                path s @ ''/pin.json.sig'' \<mapsto>
                  sig_serialize P (ec_sign P ?k (sha256 P (json_dumps P (Some fresh_state)))),
                path s @ ''/pin.json'' \<mapsto> json_dumps P (Some fresh_state)) = ?fls"
    by (rule ext) (simp add: pin_files_def)
  have cn: "create_new_secret P (path s) s = (Inr ?secret, s\<lparr>files := ?fls\<rparr>)"
    unfolding fls [symmetric]
    by (simp add: create_new_secret_def sign_to_file_def key_priv_def Let_def derive_keys_def
          fresh_state_def)
  have ls: "load_secret P (path s) s = (Inr (), ?s1)"
    using assms(3) by (simp add: load_secret_def cn)
  have k: "keys ?s1 ''ecdsa'' = Some (PrivateKey ?k)"
    by (simp add: derive_keys_def Let_def)
  have "load_state P ?s1 = (Inr (), ?s1\<lparr>state := Some fresh_state\<rparr>)"
    using assms(1,2) k by (intro load_state_signed [where k = ?k]) (simp_all add: pin_files_simps)
  then show ?thesis
    by (simp add: init_def ls)
qed


lemma init_existing:
  assumes "sig_ok P" "json_ok P" "files s (path s @ ''/secret'') = Some secret"
    and "files s (path s @ ''/pin.json'') = Some (json_dumps P v)"
    and "files s (path s @ ''/pin.json.sig'') =
           Some (sig_serialize P (ec_sign P (sha256 P (''ecdsa'' @ secret)) (sha256 P (json_dumps P v))))"
  shows "init P s = (Inr (), s\<lparr>state := v, keys := keys s ++ derive_keys P secret None\<rparr>)"
proof -
  let ?s1 = "s\<lparr>keys := keys s ++ derive_keys P secret None\<rparr>"
  have ls: "load_secret P (path s) s = (Inr (), ?s1)"
    using assms(3) by (simp add: load_secret_def)
  have k: "keys ?s1 ''ecdsa'' = Some (PrivateKey (sha256 P (''ecdsa'' @ secret)))"
    by (simp add: derive_keys_def Let_def)
  have "load_state P ?s1 = (Inr (), ?s1\<lparr>state := v\<rparr>)"
    using assms(1,2,4,5) k by (intro load_state_signed [where k = "sha256 P (''ecdsa'' @ secret)"]) simp_all
  then show ?thesis
    by (simp add: init_def ls)
qed

lemma not_Inr_unit: "fst r \<noteq> Inr () \<Longrightarrow> \<exists>e s'. r = (Inl e, s')"
  by (cases r; cases "fst r") auto

lemma save_state_failure_is_wipe:
  assumes "keys s ''ecdsa'' = Some (PrivateKey k)" "fst (save_state P s) \<noteq> Inr ()"
  shows "\<exists>e. save_state P s =
               (Inl (CriticalErrorWipeImmediately (wiped_msg e)),
                s\<lparr>files := delete_recursively (path s)
                             (pin_files P k (state s) (path s) (files s))\<rparr>)"
proof -
  let ?s1 = "s\<lparr>files := pin_files P k (state s) (path s) (files s)\<rparr>"
  have eq: "save_state P s = load_state P ?s1"
    by (rule save_state_reads_back [OF assms(1)])
  from load_state_cases [of P ?s1] assms(2) show ?thesis
    unfolding eq by (auto simp: wipe_def)
qed

lemma cipher_okD: "cipher_ok P \<Longrightarrow> decrypt P (encrypt P d k) k = Some d"
  by (simp add: cipher_ok_def)

lemma reckless_files_simps:
  "reckless_files P secret pn m dir fls (dir @ ''/reckless'') =
     Some (encrypt P m (pin_aes_key P secret pn))"
  "reckless_files P secret pn m dir fls (dir @ ''/reckless.sig'') =
     Some (sig_serialize P (ec_sign P (pin_ecdsa_key P secret pn)
                              (sha256 P (encrypt P m (pin_aes_key P secret pn)))))"
  "reckless_files P secret pn m dir fls (dir @ ''/secret'') = fls (dir @ ''/secret'')"
  "reckless_files P secret pn m dir fls (dir @ ''/pin.json'') = fls (dir @ ''/pin.json'')"
  "reckless_files P secret pn m dir fls (dir @ ''/pin.json.sig'') = fls (dir @ ''/pin.json.sig'')"
  by (simp_all add: reckless_files_def)

lemma derived_pin_keys:
  "(ks ++ derive_keys P secret (Some pn)) ''pin_aes'' = Some (Bytes (pin_aes_key P secret pn))"
  "(ks ++ derive_keys P secret (Some pn)) ''pin_ecdsa'' = Some (PrivateKey (pin_ecdsa_key P secret pn))"
  "(ks ++ derive_keys P secret (Some pn)) ''secret'' = Some (Bytes secret)"
  "(ks ++ derive_keys P secret (Some pn)) ''ecdsa'' = Some (PrivateKey (sha256 P (''ecdsa'' @ secret)))"
  "(ks ++ derive_keys P secret (Some pn)) ''hmac'' = Some (Bytes (sha256 P (''hmac'' @ secret)))"
  "(ks ++ derive_keys P secret (Some pn)) ''auth'' = Some (Bytes (sha256 P (''auth'' @ secret)))"
  by (simp_all add: derive_keys_def Let_def pin_aes_key_def pin_ecdsa_key_def)

lemma verify_file_signed:
  assumes "sig_ok P" "files s pth = Some d"
    and "files s (pth @ ''.sig'') = Some (sig_serialize P (ec_sign P k (sha256 P d)))"
  shows "verify_file P pth (Some k) s = Inr d"
  using assms by (simp add: verify_file_def Let_def sig_okD)

lemma load_stored:
  assumes "sig_ok P" "cipher_ok P"
    and "is_locked s = Inr False"
    and "keys s ''pin_aes'' = Some (Bytes (pin_aes_key P secret pn))"
    and "keys s ''pin_ecdsa'' = Some (PrivateKey (pin_ecdsa_key P secret pn))"
    and "files s (path s @ ''/reckless'') = Some (encrypt P m (pin_aes_key P secret pn))"
    and "files s (path s @ ''/reckless.sig'') =
           Some (sig_serialize P (ec_sign P (pin_ecdsa_key P secret pn)
                                    (sha256 P (encrypt P m (pin_aes_key P secret pn)))))"
    and "mnemonic_is_valid P (strip m)"
  shows "load P s = (Inr (), loaded_mnemonic P m s)"
proof -
  have v: "verify_file P (path s @ ''/reckless'') (Some (pin_ecdsa_key P secret pn)) s
             = Inr (encrypt P m (pin_aes_key P secret pn))"
    using assms(1,6,7) by (intro verify_file_signed) simp_all
  show ?thesis
    using assms(2,3,4,5,6,8)
    by (simp add: load_def file_exists_def key_priv_def key_bytes_def v cipher_okD
          load_mnemonic_def Let_def loaded_mnemonic_def)
qed

lemma set_pin_ok:
  assumes "sig_ok P" "json_ok P" "state s = Some st"
    and "keys s ''ecdsa'' = Some (PrivateKey k)"
    and "keys s ''hmac'' = Some (Bytes hk)" "keys s ''secret'' = Some (Bytes secret)"
    and "1 < pin_attempts_left st"
  shows "set_pin P pn s =
           (Inr (),
            s\<lparr>state := Some (st\<lparr>pin := Some (pin_tag P hk pn),
                                 pin_attempts_left := pin_attempts_max st\<rparr>),
              priv_is_locked := False,
              files := pin_files P k
                         (Some (st\<lparr>pin := Some (pin_tag P hk pn),
                                    pin_attempts_left := pin_attempts_max st\<rparr>))
                         (path s) (files s),
              keys := keys s ++ derive_keys P secret (Some pn)\<rparr>)"
proof -
  let ?st1 = "st\<lparr>pin := Some (pin_tag P hk pn)\<rparr>"
  let ?s0 = "s\<lparr>state := Some ?st1\<rparr>"
  let ?s1 = "?s0\<lparr>files := pin_files P k (state ?s0) (path ?s0) (files ?s0)\<rparr>"
  have sv: "save_state P ?s0 = (Inr (), ?s1)"
    using assms(1,2,4) by (intro save_state_ok) simp_all
  have u: "unlock P pn ?s1 =
             (Inr (),
              ?s1\<lparr>state := Some (?st1\<lparr>pin_attempts_left := pin_attempts_max ?st1\<rparr>),
                priv_is_locked := False,
                files := pin_files P k (Some (?st1\<lparr>pin_attempts_left := pin_attempts_max ?st1\<rparr>))
                           (path ?s1) (files ?s1),
                keys := keys ?s1 ++ derive_keys P secret (Some pn)\<rparr>)"
    using assms by (intro unlock_match [where hk = hk]) simp_all
  show ?thesis
    using assms(3,5) sv u
    by (simp add: set_pin_def key_bytes_def pin_tag_def [symmetric] pin_files_overwrite)
qed


lemma load_mnemonic_ok:
  "mnemonic_is_valid P (strip m) \<Longrightarrow>
     load_mnemonic P (Some m) [] s = (Inr (), loaded_mnemonic P m s)"
  by (simp add: load_mnemonic_def Let_def loaded_mnemonic_def)

lemma is_locked_upd:
  "is_locked (s\<lparr>files := fls\<rparr>) = is_locked s"
  "is_locked (s\<lparr>keys := ks\<rparr>) = is_locked s"
  "is_locked (loaded_mnemonic P m s) = is_locked s"
  by (simp_all add: is_locked_def is_pin_set_def loaded_mnemonic_def split: option.split)

lemma save_stored:
  assumes "sig_ok P" "cipher_ok P"
    and "is_locked s = Inr False" "mnemonic s = Some mn"
    and "keys s ''pin_aes'' = Some (Bytes (pin_aes_key P secret pn))"
    and "keys s ''pin_ecdsa'' = Some (PrivateKey (pin_ecdsa_key P secret pn))"
    and "mnemonic_is_valid P (strip mn)"
  shows "save P s =
           (Inr (), loaded_mnemonic P mn
                      (s\<lparr>files := reckless_files P secret pn mn (path s) (files s)\<rparr>))"
proof -
  let ?s2 = "s\<lparr>files := reckless_files P secret pn mn (path s) (files s)\<rparr>"
  have "load P ?s2 = (Inr (), loaded_mnemonic P mn ?s2)"
    using assms
    by (intro load_stored [where secret = secret and pn = pn])
       (simp_all add: reckless_files_simps is_locked_upd)
  then show ?thesis
    using assms(3,4,5,6)
    by (simp add: save_def key_bytes_def key_priv_def sign_to_file_def Let_def reckless_files_def)
qed

lemma verify_file_not_critical:
  "verify_file P pth key s \<noteq> Inl (CriticalErrorWipeImmediately msg)"
  by (simp add: verify_file_def Let_def split: option.split)

lemma load_state_outcomes:
  "keys s ''ecdsa'' = None \<Longrightarrow> load_state P s = fatal_wipe (KeyError ''ecdsa'') s"
  "keys s ''ecdsa'' = Some (Bytes b) \<Longrightarrow>
     load_state P s = fatal_wipe (TypeError ''private key expected'') s"
  "keys s ''ecdsa'' = Some (PrivateKey k) \<Longrightarrow> files s (path s @ ''/pin.json'') = None \<Longrightarrow>
     load_state P s = fatal_wipe (OSError (path s @ ''/pin.json'')) s"
  "keys s ''ecdsa'' = Some (PrivateKey k) \<Longrightarrow> files s (path s @ ''/pin.json'') = Some d \<Longrightarrow>
     files s (path s @ ''/pin.json.sig'') = None \<Longrightarrow>
     load_state P s = fatal_wipe (OSError (path s @ ''/pin.json.sig'')) s"
  "keys s ''ecdsa'' = Some (PrivateKey k) \<Longrightarrow> files s (path s @ ''/pin.json'') = Some d \<Longrightarrow>
     files s (path s @ ''/pin.json.sig'') = Some raw \<Longrightarrow> sig_parse P raw = None \<Longrightarrow>
     load_state P s = fatal_wipe (ValueError ''bad signature encoding'') s"
  "keys s ''ecdsa'' = Some (PrivateKey k) \<Longrightarrow> files s (path s @ ''/pin.json'') = Some d \<Longrightarrow>
     files s (path s @ ''/pin.json.sig'') = Some raw \<Longrightarrow> sig_parse P raw = Some sg \<Longrightarrow>
     \<not> pub_verify P (get_public_key P k) sg (sha256 P d) \<Longrightarrow>
     load_state P s = fatal_wipe (KeyStoreError ''Signature is invalid!'') s"
  "keys s ''ecdsa'' = Some (PrivateKey k) \<Longrightarrow> files s (path s @ ''/pin.json'') = Some d \<Longrightarrow>
     files s (path s @ ''/pin.json.sig'') = Some raw \<Longrightarrow> sig_parse P raw = Some sg \<Longrightarrow>
     pub_verify P (get_public_key P k) sg (sha256 P d) \<Longrightarrow> json_loads P d = None \<Longrightarrow>
     load_state P s = fatal_wipe (ValueError ''syntax error in JSON'') s"
  "keys s ''ecdsa'' = Some (PrivateKey k) \<Longrightarrow> files s (path s @ ''/pin.json'') = Some d \<Longrightarrow>
     files s (path s @ ''/pin.json.sig'') = Some raw \<Longrightarrow> sig_parse P raw = Some sg \<Longrightarrow>
     pub_verify P (get_public_key P k) sg (sha256 P d) \<Longrightarrow> json_loads P d = Some v \<Longrightarrow>
     load_state P s = (Inr (), s\<lparr>state := v\<rparr>)"
  by (simp_all add: load_state_def verify_file_def key_priv_def fatal_wipe_def wipe_def Let_def)

lemma save_state_outcomes:
  assumes "keys s ''ecdsa'' = Some (PrivateKey k)"
    and "data = json_dumps P (state s)"
    and "raw = sig_serialize P (ec_sign P k (sha256 P data))"
    and "s1 = s\<lparr>files := pin_files P k (state s) (path s) (files s)\<rparr>"
  shows "sig_parse P raw = None \<Longrightarrow>
           save_state P s = fatal_wipe (ValueError ''bad signature encoding'') s1"
    and "sig_parse P raw = Some sg \<Longrightarrow> \<not> pub_verify P (get_public_key P k) sg (sha256 P data) \<Longrightarrow>
           save_state P s = fatal_wipe (KeyStoreError ''Signature is invalid!'') s1"
    and "sig_parse P raw = Some sg \<Longrightarrow> pub_verify P (get_public_key P k) sg (sha256 P data) \<Longrightarrow>
           json_loads P data = None \<Longrightarrow>
           save_state P s = fatal_wipe (ValueError ''syntax error in JSON'') s1"
    and "sig_parse P raw = Some sg \<Longrightarrow> pub_verify P (get_public_key P k) sg (sha256 P data) \<Longrightarrow>
           json_loads P data = Some v \<Longrightarrow>
           save_state P s = (Inr (), s1\<lparr>state := v\<rparr>)"
proof -
  have rb: "save_state P s = load_state P s1"
    unfolding assms(4) by (rule save_state_reads_back [OF assms(1)])
  have f: "keys s1 ''ecdsa'' = Some (PrivateKey k)" "files s1 (path s1 @ ''/pin.json'') = Some data"
    "files s1 (path s1 @ ''/pin.json.sig'') = Some raw"
    by (simp_all add: assms pin_files_simps)
  show "sig_parse P raw = None \<Longrightarrow>
           save_state P s = fatal_wipe (ValueError ''bad signature encoding'') s1"
    unfolding rb by (rule load_state_outcomes(5) [OF f])
  show "sig_parse P raw = Some sg \<Longrightarrow> \<not> pub_verify P (get_public_key P k) sg (sha256 P data) \<Longrightarrow>
           save_state P s = fatal_wipe (KeyStoreError ''Signature is invalid!'') s1"
    unfolding rb by (rule load_state_outcomes(6) [OF f])
  show "sig_parse P raw = Some sg \<Longrightarrow> pub_verify P (get_public_key P k) sg (sha256 P data) \<Longrightarrow>
           json_loads P data = None \<Longrightarrow>
           save_state P s = fatal_wipe (ValueError ''syntax error in JSON'') s1"
    unfolding rb by (rule load_state_outcomes(7) [OF f])
  show "sig_parse P raw = Some sg \<Longrightarrow> pub_verify P (get_public_key P k) sg (sha256 P data) \<Longrightarrow>
           json_loads P data = Some v \<Longrightarrow>
           save_state P s = (Inr (), s1\<lparr>state := v\<rparr>)"
    unfolding rb by (rule load_state_outcomes(8) [OF f])
qed

subsection \<open>Facts about the small instance\<close>

lemma dec_enc_int: "dec_int (enc_int i @ rest) = Some (i, rest)"
  by (simp add: dec_int_def enc_int_def takeWhile_append dropWhile_append)

lemma toy_json_ok: "json_ok toy"
  unfolding json_ok_def
proof
  fix v :: "pin_state option"
  show "json_loads toy (json_dumps toy v) = Some v"
  proof (cases v)
    case None
    then show ?thesis by (simp add: toy_def toy_dumps_def toy_loads_def)
  next
    case (Some st)
    then show ?thesis
      by (cases "pin st") (simp_all add: toy_def toy_dumps_def toy_loads_def dec_enc_int)
  qed
qed

lemma toy_sig_ok: "sig_ok toy"
  by (simp add: sig_ok_def toy_def)

lemma toy_cipher_ok: "cipher_ok toy"
  by (simp add: cipher_ok_def toy_def)

lemma toy_simps:
  "sha256 toy x = x" "hmac_sha256 toy k m = k @ m" "ec_sign toy k h = k @ h"
  "sig_serialize toy sg = sg" "sig_parse toy raw = Some raw" "get_public_key toy k = k"
  "pub_verify toy pub sg h = (sg = pub @ h)" "encrypt toy d k = k @ d"
  "decrypt toy ct k = (if prefix k ct then Some (drop (length k) ct) else None)"
  "json_dumps toy = toy_dumps" "json_loads toy = toy_loads"
  "mnemonic_is_valid toy m = (m \<noteq> [])"
  by (simp_all add: toy_def)

lemma toy_wordlist: "length (WORDLIST toy) = 2048" "i < 2048 \<Longrightarrow> WORDLIST toy ! i = str_nat i"
  by (simp_all add: toy_def)

lemma rejecting_simps:
  "sha256 rejecting x = x" "hmac_sha256 rejecting k m = k @ m" "ec_sign rejecting k h = k @ h"
  "sig_serialize rejecting sg = sg" "sig_parse rejecting raw = Some raw"
  "get_public_key rejecting k = k" "pub_verify rejecting pub sg h = False"
  "json_dumps rejecting = toy_dumps" "json_loads rejecting = toy_loads"
  by (simp_all add: rejecting_def toy_def)

lemma demo_eq:
  "demo =
     \<lparr>path = ''d'', priv_is_locked = True, mnemonic = None, root = None, fingerprint = None,
      idkey = None, state = Some demo_state, keys = derive_keys toy ''S'' (Some ''1234''),
      files = pin_files toy ''ecdsaS'' (Some demo_state) ''d'' [''d/secret'' \<mapsto> ''S'']\<rparr>"
proof -
  let ?st0 = "\<lparr>pin = None, pin_attempts_left = 3, pin_attempts_max = 3\<rparr>"
  let ?new = "new_keystore ''d'' demo_flash :: string keystore"
  let ?s1 = "?new\<lparr>state := Some ?st0, keys := keys ?new ++ derive_keys toy ''S'' None\<rparr>"
  have i: "init toy ?new = (Inr (), ?s1)"
    by (intro init_existing [OF toy_sig_ok toy_json_ok])
       (simp_all add: new_keystore_def demo_flash_def pin_files_def toy_simps)
  have sp: "set_pin toy ''1234'' ?s1 =
              (Inr (),
               ?s1\<lparr>state := Some (?st0\<lparr>pin := Some (pin_tag toy ''hmacS'' ''1234''),
                                     pin_attempts_left := pin_attempts_max ?st0\<rparr>),
                 priv_is_locked := False,
                 files := pin_files toy ''ecdsaS''
                            (Some (?st0\<lparr>pin := Some (pin_tag toy ''hmacS'' ''1234''),
                                        pin_attempts_left := pin_attempts_max ?st0\<rparr>))
                            (path ?s1) (files ?s1),
                 keys := keys ?s1 ++ derive_keys toy ''S'' (Some ''1234'')\<rparr>)"
    by (intro set_pin_ok [OF toy_sig_ok toy_json_ok])
       (simp_all add: new_keystore_def derive_keys_def toy_simps)
  have ks: "derive_keys toy ''S'' None ++ derive_keys toy ''S'' (Some ''1234'')
              = derive_keys toy ''S'' (Some ''1234'')"
    by (rule ext) (simp add: derive_keys_def Let_def map_add_def)
  have fl: "pin_files toy ''ecdsaS'' v ''d'' demo_flash
              = pin_files toy ''ecdsaS'' v ''d'' [''d/secret'' \<mapsto> ''S'']" for v
    by (simp add: demo_flash_def pin_files_overwrite)
  show ?thesis
    unfolding demo_def i snd_conv sp
    by (simp add: lock_def Let_def new_keystore_def ks fl demo_state_def)
qed

lemma demo_simps:
  "state demo = Some demo_state" "path demo = ''d''"
  "keys demo ''ecdsa'' = Some (PrivateKey ''ecdsaS'')"
  "keys demo ''hmac'' = Some (Bytes ''hmacS'')"
  "keys demo ''secret'' = Some (Bytes ''S'')"
  "keys demo ''auth'' = Some (Bytes ''authS'')"
  "pin demo_state = Some (pin_tag toy ''hmacS'' ''1234'')"
  "pin_attempts_left demo_state = 3" "pin_attempts_max demo_state = 3"
  by (simp_all add: demo_eq demo_state_def derive_keys_def Let_def toy_simps)

lemma demo_base_keys: "base_keys toy ''S'' demo"
  by (simp add: base_keys_def demo_eq derive_keys_def Let_def toy_simps)

lemma demo_after_wrong_pin:
  "unlock toy ''0000'' demo =
     (Inl (PinError (invalid_pin_msg 2 3)),
      demo\<lparr>state := Some (demo_state\<lparr>pin_attempts_left := 2\<rparr>),
           files := pin_files toy ''ecdsaS'' (Some (demo_state\<lparr>pin_attempts_left := 2\<rparr>)) ''d''
                      (files demo)\<rparr>)"
proof -
  have a: "1 < pin_attempts_left demo_state" by (simp add: demo_simps)
  have b: "pin demo_state \<noteq> Some (pin_tag toy ''hmacS'' ''0000'')"
    by (auto simp: demo_simps pin_tag_def toy_simps dest: hexlify_inj)
  from unlock_mismatch [OF toy_sig_ok toy_json_ok demo_simps(1) demo_simps(3) demo_simps(4) a b]
  show ?thesis by (simp add: demo_simps)
qed

lemma provisioned_simps:
  "state provisioned = Some fresh_state" "path provisioned = ''d''"
  "keys provisioned ''ecdsa'' = Some (PrivateKey (''ecdsa'' @ get_random_bytes toy 32))"
  "keys provisioned ''hmac'' = Some (Bytes (''hmac'' @ get_random_bytes toy 32))"
proof -
  have "files (new_keystore ''d'' Map.empty :: string keystore) (path (new_keystore ''d'' Map.empty :: string keystore) @ ''/secret'') = None"
    by (simp add: new_keystore_def)
  note i = init_fresh [OF toy_sig_ok toy_json_ok this]
  show "state provisioned = Some fresh_state" "path provisioned = ''d''"
  "keys provisioned ''ecdsa'' = Some (PrivateKey (''ecdsa'' @ get_random_bytes toy 32))"
  "keys provisioned ''hmac'' = Some (Bytes (''hmac'' @ get_random_bytes toy 32))"
    unfolding provisioned_def i
    by (simp_all add: new_keystore_def derive_keys_def Let_def toy_simps)
qed

lemma provisioned_base_keys: "base_keys toy (get_random_bytes toy 32) provisioned"
proof -
  have "files (new_keystore ''d'' Map.empty :: string keystore)
          (path (new_keystore ''d'' Map.empty :: string keystore) @ ''/secret'') = None"
    by (simp add: new_keystore_def)
  note i = init_fresh [OF toy_sig_ok toy_json_ok this]
  show ?thesis
    unfolding provisioned_def i
    by (simp add: base_keys_def new_keystore_def derive_keys_def Let_def)
qed

lemma strip_simps: "strip ''zoo zoo'' = ''zoo zoo''"
  by (simp add: strip_def is_space_def)

lemma vault_eq:
  "vault =
     loaded_mnemonic toy ''zoo zoo''
       (demo\<lparr>priv_is_locked := False,
             keys := keys demo ++ derive_keys toy ''S'' (Some ''1234''),
             files := reckless_files toy ''S'' ''1234'' ''zoo zoo'' ''d'' (files demo)\<rparr>)"
proof -
  let ?s1 = "demo\<lparr>priv_is_locked := False,
                  keys := keys demo ++ derive_keys toy ''S'' (Some ''1234'')\<rparr>"
  have e: "demo_state\<lparr>pin_attempts_left := pin_attempts_max demo_state\<rparr> = demo_state"
    by (simp add: demo_state_def)
  have f: "pin_files toy ''ecdsaS'' (Some demo_state) (path demo) (files demo) = files demo"
    by (rule ext) (simp add: demo_eq pin_files_def)
  have "unlock toy ''1234'' demo =
          (Inr (),
           demo\<lparr>state := Some (demo_state\<lparr>pin_attempts_left := pin_attempts_max demo_state\<rparr>),
                priv_is_locked := False,
                files := pin_files toy ''ecdsaS''
                           (Some (demo_state\<lparr>pin_attempts_left := pin_attempts_max demo_state\<rparr>))
                           (path demo) (files demo),
                keys := keys demo ++ derive_keys toy ''S'' (Some ''1234'')\<rparr>)"
    by (intro unlock_match [OF toy_sig_ok toy_json_ok demo_simps(1,3,4,5)])
       (simp_all add: demo_simps)
  then have u: "unlock toy ''1234'' demo = (Inr (), ?s1)"
    unfolding e f by (simp add: demo_eq)
  have lm: "load_mnemonic toy (Some ''zoo zoo'') [] ?s1 = (Inr (), loaded_mnemonic toy ''zoo zoo'' ?s1)"
    by (rule load_mnemonic_ok) (simp add: strip_simps toy_simps)
  have sv: "save toy (loaded_mnemonic toy ''zoo zoo'' ?s1) =
              (Inr (), loaded_mnemonic toy ''zoo zoo''
                         ((loaded_mnemonic toy ''zoo zoo'' ?s1)
                            \<lparr>files := reckless_files toy ''S'' ''1234'' ''zoo zoo''
                                        (path (loaded_mnemonic toy ''zoo zoo'' ?s1))
                                        (files (loaded_mnemonic toy ''zoo zoo'' ?s1))\<rparr>))"
    by (intro save_stored [OF toy_sig_ok toy_cipher_ok])
       (simp_all add: loaded_mnemonic_def is_locked_def is_pin_set_def demo_simps derived_pin_keys
          strip_simps toy_simps)
  show ?thesis
    unfolding vault_def u snd_conv lm sv
    by (simp add: loaded_mnemonic_def demo_simps)
qed

lemma vault_simps:
  "state vault = Some demo_state" "path vault = ''d''" "priv_is_locked vault = False"
  "base_keys toy ''S'' vault"
  "keys vault ''pin_ecdsa'' = Some (PrivateKey ''ecdsakeysS1234'')"
  "keys vault ''pin_aes'' = Some (Bytes ''aeskeysS1234'')"
  "files vault ''d/reckless'' = Some ''aeskeysS1234zoo zoo''"
  "files vault ''d/reckless.sig'' = Some ''ecdsakeysS1234aeskeysS1234zoo zoo''"
  "files vault ''d/secret'' = Some ''S''"
  by (simp_all add: vault_eq loaded_mnemonic_def demo_simps base_keys_def derive_keys_def Let_def
        toy_simps reckless_files_def pin_aes_key_def pin_ecdsa_key_def)
     (simp_all add: demo_eq pin_files_def derive_keys_def Let_def toy_simps)

lemma tampered_simps:
  "is_locked tampered = Inr False" "path tampered = ''d''"
  "keys tampered ''pin_ecdsa'' = Some (PrivateKey ''ecdsakeysS1234'')"
  "files tampered ''d/reckless'' = Some ''garbage''"
  "files tampered ''d/reckless.sig'' = Some ''ecdsakeysS1234aeskeysS1234zoo zoo''"
  "files tampered ''d/secret'' = Some ''S''"
  by (simp_all add: tampered_def vault_simps is_locked_def is_pin_set_def)



subsection \<open>The claims\<close>

text \<open>
  Claim C6. \<open>derive_keys\<close> is a total function of the secret and the optional PIN (no
  state, no error value). Without a PIN the bundle holds exactly the secret and the three
  keys hashed from \<open>ecdsa\<close>, \<open>hmac\<close> and \<open>auth\<close> followed by the secret; with a PIN it
  holds in addition exactly \<open>pin_aes\<close>, \<open>pin_hmac\<close> and \<open>pin_ecdsa\<close>, hashed from
  \<open>aes\<close>, \<open>hmac\<close> and \<open>ecdsa\<close> followed by \<open>pin_key = SHA256(keys || secret || pin)\<close>;
  the base fields are the same in both bundles.
\<close>

theorem derive_keys_domain_separated:
  "derive_keys P secret None =
     [''secret'' \<mapsto> Bytes secret,
      ''ecdsa'' \<mapsto> PrivateKey (sha256 P (''ecdsa'' @ secret)),
      ''hmac'' \<mapsto> Bytes (sha256 P (''hmac'' @ secret)),
      ''auth'' \<mapsto> Bytes (sha256 P (''auth'' @ secret))]
   \<and> derive_keys P secret (Some p) =
     (derive_keys P secret None)
       (''pin_aes'' \<mapsto> Bytes (sha256 P (''aes'' @ sha256 P (''keys'' @ secret @ p))),
        ''pin_hmac'' \<mapsto> Bytes (sha256 P (''hmac'' @ sha256 P (''keys'' @ secret @ p))),
        ''pin_ecdsa'' \<mapsto> PrivateKey (sha256 P (''ecdsa'' @ sha256 P (''keys'' @ secret @ p))))
   \<and> dom (derive_keys P secret None) = {''secret'', ''ecdsa'', ''hmac'', ''auth''}
   \<and> dom (derive_keys P secret (Some p)) =
       {''secret'', ''ecdsa'', ''hmac'', ''auth'', ''pin_aes'', ''pin_hmac'', ''pin_ecdsa''}
   \<and> derive_keys P secret (Some p) ''secret'' = derive_keys P secret None ''secret''
   \<and> derive_keys P secret (Some p) ''ecdsa'' = derive_keys P secret None ''ecdsa''
   \<and> derive_keys P secret (Some p) ''hmac'' = derive_keys P secret None ''hmac''
   \<and> derive_keys P secret (Some p) ''auth'' = derive_keys P secret None ''auth''"
  by (auto simp: derive_keys_def Let_def)






text \<open>
  Claim C4. With the correct PIN and a counter that stays positive after the decrement,
  \<open>unlock\<close> sets \<open>pin_attempts_left\<close> back to \<open>pin_attempts_max\<close>, clears
  \<^verbatim>\<open>_is_locked\<close> so that the store is unlocked, persists that state (it loads back from
  flash), and merges \<open>derive_keys secret pin\<close> into the keys, which then hold
  \<open>pin_aes\<close>, \<open>pin_hmac\<close> and \<open>pin_ecdsa\<close>.
\<close>

theorem unlock_correct_pin_resets_and_merges:
  assumes "sig_ok P" "json_ok P"
    and "state s = Some st"
    and "base_keys P secret s"
    and "0 < pin_attempts_left st - 1"
    and "pin st = Some (hexlify (hmac_sha256 P (sha256 P (''hmac'' @ secret)) pn))"
  shows "unlock P pn s =
           (Inr (),
            s\<lparr>state := Some (st\<lparr>pin_attempts_left := pin_attempts_max st\<rparr>),
              priv_is_locked := False,
              files := pin_files P (sha256 P (''ecdsa'' @ secret))
                         (Some (st\<lparr>pin_attempts_left := pin_attempts_max st\<rparr>))
                         (path s) (files s),
              keys := keys s ++ derive_keys P secret (Some pn)\<rparr>)
         \<and> is_locked (snd (unlock P pn s)) = Inr False
         \<and> load_state P ((snd (unlock P pn s))\<lparr>state := v0\<rparr>) =
             (Inr (), (snd (unlock P pn s))
                        \<lparr>state := Some (st\<lparr>pin_attempts_left := pin_attempts_max st\<rparr>)\<rparr>)
         \<and> keys (snd (unlock P pn s)) ''pin_aes'' =
             Some (Bytes (sha256 P (''aes'' @ sha256 P (''keys'' @ secret @ pn))))
         \<and> keys (snd (unlock P pn s)) ''pin_hmac'' =
             Some (Bytes (sha256 P (''hmac'' @ sha256 P (''keys'' @ secret @ pn))))
         \<and> keys (snd (unlock P pn s)) ''pin_ecdsa'' =
             Some (PrivateKey (sha256 P (''ecdsa'' @ sha256 P (''keys'' @ secret @ pn))))"
proof -
  let ?k = "sha256 P (''ecdsa'' @ secret)"
  let ?st' = "st\<lparr>pin_attempts_left := pin_attempts_max st\<rparr>"
  let ?s' = "s\<lparr>state := Some ?st', priv_is_locked := False,
              files := pin_files P ?k (Some ?st') (path s) (files s),
              keys := keys s ++ derive_keys P secret (Some pn)\<rparr>"
  have u: "unlock P pn s = (Inr (), ?s')"
    using assms by (intro unlock_match) (simp_all add: pin_tag_def base_keys_def)
  have e: "(keys s ++ derive_keys P secret (Some pn)) ''ecdsa'' = Some (PrivateKey ?k)"
    by (simp add: derive_keys_def Let_def)
  have "load_state P (?s'\<lparr>state := v0\<rparr>) = (Inr (), ?s'\<lparr>state := v0\<rparr>\<lparr>state := Some ?st'\<rparr>)"
    using assms(1,2) by (intro load_state_signed [where k = ?k]) (simp_all add: pin_files_simps e)
  then show ?thesis
    by (simp add: u is_locked_def is_pin_set_def derive_keys_def Let_def)
qed

theorem unlock_correct_pin_resets_and_merges_witness:
  "fst (unlock toy ''0000'' demo) = Inl (PinError (invalid_pin_msg 2 3))
   \<and> state (snd (unlock toy ''0000'' demo)) = Some (demo_state\<lparr>pin_attempts_left := 2\<rparr>)
   \<and> fst (unlock toy ''1234'' (snd (unlock toy ''0000'' demo))) = Inr ()
   \<and> state (snd (unlock toy ''1234'' (snd (unlock toy ''0000'' demo)))) = Some demo_state
   \<and> pin_attempts_left demo_state = pin_attempts_max demo_state
   \<and> priv_is_locked (snd (unlock toy ''1234'' (snd (unlock toy ''0000'' demo)))) = False
   \<and> keys (snd (unlock toy ''1234'' (snd (unlock toy ''0000'' demo)))) ''pin_aes''
       = Some (Bytes ''aeskeysS1234'')"
proof -
  let ?st = "demo_state\<lparr>pin_attempts_left := 2\<rparr>"
  let ?s = "demo\<lparr>state := Some ?st,
                  files := pin_files toy ''ecdsaS'' (Some ?st) ''d'' (files demo)\<rparr>"
  have a: "state ?s = Some ?st" by simp
  have b: "base_keys toy ''S'' ?s" using demo_base_keys by (simp add: base_keys_def)
  have c: "0 < pin_attempts_left ?st - 1" by simp
  have d: "pin ?st = Some (hexlify (hmac_sha256 toy (sha256 toy (''hmac'' @ ''S'')) ''1234''))"
    by (simp add: demo_simps pin_tag_def toy_simps)
  have e: "demo_state\<lparr>pin_attempts_left := 3\<rparr> = demo_state"
    by (simp add: demo_state_def)
  from unlock_correct_pin_resets_and_merges
         [OF toy_sig_ok toy_json_ok a b c d, where ?v0.0 = None]
  show ?thesis
    unfolding demo_after_wrong_pin fst_conv snd_conv
    by (simp add: demo_simps e toy_simps derive_keys_def Let_def)
qed

text \<open>
  Claim C9. \<open>unlock\<close> looks neither at whether a PIN is configured nor at
  \<^verbatim>\<open>_is_locked\<close>. With no verification tag stored, a call with any PIN lowers the
  counter, persists it and, while the counter stays positive, raises \<^verbatim>\<open>PinError\<close>;
  \<open>pin_attempts_max\<close> such calls in a row from a full counter end in the wipe, the
  secret file gone.
\<close>

theorem unlock_without_pin_counts_down_to_wipe:
  assumes "sig_ok P" "json_ok P"
    and "state s = Some st" "pin st = None"
    and "keys s ''ecdsa'' = Some (PrivateKey k)"
    and "keys s ''hmac'' = Some (Bytes hk)"
  shows "(1 < pin_attempts_left st \<longrightarrow>
            unlock P pn s =
              (Inl (PinError (invalid_pin_msg (pin_attempts_left st - 1) (pin_attempts_max st))),
               s\<lparr>state := Some (st\<lparr>pin_attempts_left := pin_attempts_left st - 1\<rparr>),
                 files := pin_files P k (Some (st\<lparr>pin_attempts_left := pin_attempts_left st - 1\<rparr>))
                            (path s) (files s)\<rparr>))
         \<and> (1 \<le> pin_attempts_max st \<and> pin_attempts_left st = pin_attempts_max st
              \<and> length pins = nat (pin_attempts_max st) \<longrightarrow>
            unlock_attempts P pins s ! (length pins - 1) =
              (Inl (CriticalErrorWipeImmediately no_attempts_msg),
               s\<lparr>state := Some (st\<lparr>pin_attempts_left := 0\<rparr>),
                 files := delete_recursively (path s)
                            (pin_files P k (Some (st\<lparr>pin_attempts_left := 0\<rparr>))
                               (path s) (files s))\<rparr>)
            \<and> files (snd (unlock_attempts P pins s ! (length pins - 1))) (path s @ ''/secret'')
                = None)"
proof -
  have wrong: "pin st \<noteq> Some (pin_tag P hk p)" for p
    using assms(4) by simp
  have one: "unlock P pn s =
              (Inl (PinError (invalid_pin_msg (pin_attempts_left st - 1) (pin_attempts_max st))),
               s\<lparr>state := Some (st\<lparr>pin_attempts_left := pin_attempts_left st - 1\<rparr>),
                 files := pin_files P k (Some (st\<lparr>pin_attempts_left := pin_attempts_left st - 1\<rparr>))
                            (path s) (files s)\<rparr>)" if "1 < pin_attempts_left st"
    by (rule unlock_mismatch [OF assms(1,2,3,5,6) that wrong])
  have run: "unlock_attempts P pins s ! (length pins - 1) =
              (Inl (CriticalErrorWipeImmediately no_attempts_msg),
               s\<lparr>state := Some (st\<lparr>pin_attempts_left := 0\<rparr>),
                 files := delete_recursively (path s)
                            (pin_files P k (Some (st\<lparr>pin_attempts_left := 0\<rparr>))
                               (path s) (files s))\<rparr>)"
    if "1 \<le> pin_attempts_max st" "pin_attempts_left st = pin_attempts_max st"
       "length pins = nat (pin_attempts_max st)"
  proof -
    have len: "int (length pins) \<le> pin_attempts_left st" using that by simp
    have tr: "unlock_attempts P pins s = map (attempt_outcome P k st s) [0..<length pins]"
      using wrong by (intro attempts_trace [OF assms(1,2,3,5,6) _ len]) simp
    define i where "i = length pins - 1"
    have i: "i < length pins" using that by (simp add: i_def)
    have e: "pin_attempts_left st - int i - 1 = 0" using that by (simp add: i_def)
    have "unlock_attempts P pins s ! i = attempt_outcome P k st s i"
      using i by (simp add: tr)
    also have "\<dots> = (Inl (CriticalErrorWipeImmediately no_attempts_msg),
               s\<lparr>state := Some (st\<lparr>pin_attempts_left := 0\<rparr>),
                 files := delete_recursively (path s)
                            (pin_files P k (Some (st\<lparr>pin_attempts_left := 0\<rparr>))
                               (path s) (files s))\<rparr>)"
      by (simp add: attempt_outcome_def Let_def e)
    finally show ?thesis by (simp only: i_def)
  qed
  have gone: "files (snd (unlock_attempts P pins s ! (length pins - 1))) (path s @ ''/secret'') = None"
    if "1 \<le> pin_attempts_max st" "pin_attempts_left st = pin_attempts_max st"
       "length pins = nat (pin_attempts_max st)"
    unfolding run [OF that] by (simp add: delete_recursively_def)
  from one run gone show ?thesis by blast
qed

theorem unlock_without_pin_counts_down_to_wipe_witness:
  "state provisioned = Some fresh_state
   \<and> fst (unlock toy ''0000'' provisioned) = Inl (PinError (invalid_pin_msg 9 10))
   \<and> fst (unlock_attempts toy (replicate 10 ''0000'') provisioned ! 9)
       = Inl (CriticalErrorWipeImmediately no_attempts_msg)
   \<and> files (snd (unlock_attempts toy (replicate 10 ''0000'') provisioned ! 9)) ''d/secret'' = None"
proof -
  have p: "pin fresh_state = None" by (simp add: fresh_state_def)
  note th = unlock_without_pin_counts_down_to_wipe
              [OF toy_sig_ok toy_json_ok provisioned_simps(1) p provisioned_simps(3,4),
               of "''0000''" "replicate 10 ''0000''"]
  have a: "1 < pin_attempts_left fresh_state" by (simp add: fresh_state_def)
  have b: "1 \<le> pin_attempts_max fresh_state \<and> pin_attempts_left fresh_state = pin_attempts_max fresh_state
              \<and> length (replicate 10 ''0000'') = nat (pin_attempts_max fresh_state)"
    by (simp add: fresh_state_def)
  have i: "length (replicate 10 ''0000'') - 1 = 9" by simp
  note first = th [THEN conjunct1, THEN mp, OF a]
  note last = th [THEN conjunct2, THEN mp, OF b, unfolded i]
  have 1: "fst (unlock toy ''0000'' provisioned) = Inl (PinError (invalid_pin_msg 9 10))"
    unfolding first by (simp add: fresh_state_def)
  have 2: "fst (unlock_attempts toy (replicate 10 ''0000'') provisioned ! 9)
       = Inl (CriticalErrorWipeImmediately no_attempts_msg)"
    unfolding last [THEN conjunct1] by simp
  have 3: "files (snd (unlock_attempts toy (replicate 10 ''0000'') provisioned ! 9)) ''d/secret'' = None"
    using last [THEN conjunct2] by (simp add: provisioned_simps)
  from 1 2 3 show ?thesis by (simp add: provisioned_simps)
qed

text \<open>
  Claim C10. \<open>save_state\<close> writes \<^verbatim>\<open>pin.json\<close> and its signature and then runs
  \<open>load_state\<close> on what it has just written. Whatever makes that re-read fail ends in
  the wipe of the store directory, the secret file included, and in
  \<^verbatim>\<open>CriticalErrorWipeImmediately\<close>: a signature that does not parse back, a signature
  that does not validate, a payload that does not load as JSON; it returns normally only
  when all three succeed. \<open>unset_pin\<close> ends with \<open>save_state\<close>, and \<open>set_pin\<close> and
  \<open>unlock\<close> end with the failure of their first \<open>save_state\<close> when it fails, so each of
  them can end in the wipe. (A missing signing key is raised before the self-check, as
  \<^verbatim>\<open>KeyError\<close>, with no wipe.)
\<close>

theorem save_state_self_check_wipes:
  "(keys s ''ecdsa'' = Some (PrivateKey k) \<longrightarrow>
      save_state P s = load_state P (s\<lparr>files := pin_files P k (state s) (path s) (files s)\<rparr>)
      \<and> (fst (save_state P s) \<noteq> Inr () \<longrightarrow>
           (\<exists>e. save_state P s =
                  (Inl (CriticalErrorWipeImmediately (wiped_msg e)),
                   s\<lparr>files := delete_recursively (path s)
                                (pin_files P k (state s) (path s) (files s))\<rparr>))))
   \<and> (state s = Some st \<longrightarrow> unset_pin P s = save_state P (s\<lparr>state := Some (st\<lparr>pin := None\<rparr>)\<rparr>))
   \<and> (state s = Some st \<and> keys s ''hmac'' = Some (Bytes hk)
        \<and> fst (save_state P (s\<lparr>state := Some (st\<lparr>pin := Some (hexlify (hmac_sha256 P hk pn))\<rparr>)\<rparr>))
            \<noteq> Inr () \<longrightarrow>
        set_pin P pn s =
          save_state P (s\<lparr>state := Some (st\<lparr>pin := Some (hexlify (hmac_sha256 P hk pn))\<rparr>)\<rparr>))
   \<and> (state s = Some st
        \<and> fst (save_state P (s\<lparr>state := Some (st\<lparr>pin_attempts_left := pin_attempts_left st - 1\<rparr>)\<rparr>))
            \<noteq> Inr () \<longrightarrow>
        unlock P pn s =
          save_state P (s\<lparr>state := Some (st\<lparr>pin_attempts_left := pin_attempts_left st - 1\<rparr>)\<rparr>))
   \<and> (keys s ''ecdsa'' = Some (PrivateKey k)
        \<and> sig_parse P (sig_serialize P (ec_sign P k (sha256 P (json_dumps P (state s))))) = None \<longrightarrow>
        save_state P s =
          fatal_wipe (ValueError ''bad signature encoding'')
            (s\<lparr>files := pin_files P k (state s) (path s) (files s)\<rparr>))
   \<and> (keys s ''ecdsa'' = Some (PrivateKey k)
        \<and> sig_parse P (sig_serialize P (ec_sign P k (sha256 P (json_dumps P (state s))))) = Some sg
        \<and> \<not> pub_verify P (get_public_key P k) sg (sha256 P (json_dumps P (state s))) \<longrightarrow>
        save_state P s =
          fatal_wipe (KeyStoreError ''Signature is invalid!'')
            (s\<lparr>files := pin_files P k (state s) (path s) (files s)\<rparr>))
   \<and> (keys s ''ecdsa'' = Some (PrivateKey k)
        \<and> sig_parse P (sig_serialize P (ec_sign P k (sha256 P (json_dumps P (state s))))) = Some sg
        \<and> pub_verify P (get_public_key P k) sg (sha256 P (json_dumps P (state s)))
        \<and> json_loads P (json_dumps P (state s)) = None \<longrightarrow>
        save_state P s =
          fatal_wipe (ValueError ''syntax error in JSON'')
            (s\<lparr>files := pin_files P k (state s) (path s) (files s)\<rparr>))
   \<and> (keys s ''ecdsa'' = Some (PrivateKey k)
        \<and> sig_parse P (sig_serialize P (ec_sign P k (sha256 P (json_dumps P (state s))))) = Some sg
        \<and> pub_verify P (get_public_key P k) sg (sha256 P (json_dumps P (state s)))
        \<and> json_loads P (json_dumps P (state s)) = Some v \<longrightarrow>
        save_state P s =
          (Inr (), s\<lparr>files := pin_files P k (state s) (path s) (files s), state := v\<rparr>))
   \<and> files (snd (fatal_wipe e (s\<lparr>files := pin_files P k (state s) (path s) (files s)\<rparr>)))
         (path s @ ''/secret'') = None
   \<and> (keys s ''ecdsa'' = None \<longrightarrow>
        save_state P s =
          (Inl (KeyError ''ecdsa''),
           s\<lparr>files := (files s)(path s @ ''/pin.json'' \<mapsto> json_dumps P (state s))\<rparr>))"
proof -
  let ?s1 = "s\<lparr>files := pin_files P k (state s) (path s) (files s)\<rparr>"
  let ?data = "json_dumps P (state s)"
  let ?raw = "sig_serialize P (ec_sign P k (sha256 P ?data))"
  have c1: "keys s ''ecdsa'' = Some (PrivateKey k) \<longrightarrow>
      save_state P s = load_state P ?s1
      \<and> (fst (save_state P s) \<noteq> Inr () \<longrightarrow>
           (\<exists>e. save_state P s =
                  (Inl (CriticalErrorWipeImmediately (wiped_msg e)),
                   s\<lparr>files := delete_recursively (path s)
                                (pin_files P k (state s) (path s) (files s))\<rparr>)))"
    using save_state_reads_back [of s k P] save_state_failure_is_wipe [of s k P] by blast
  have c2: "state s = Some st \<longrightarrow> unset_pin P s = save_state P (s\<lparr>state := Some (st\<lparr>pin := None\<rparr>)\<rparr>)"
    by (simp add: unset_pin_def)
  have c3: "state s = Some st \<and> keys s ''hmac'' = Some (Bytes hk)
        \<and> fst (save_state P (s\<lparr>state := Some (st\<lparr>pin := Some (hexlify (hmac_sha256 P hk pn))\<rparr>)\<rparr>))
            \<noteq> Inr () \<longrightarrow>
        set_pin P pn s =
          save_state P (s\<lparr>state := Some (st\<lparr>pin := Some (hexlify (hmac_sha256 P hk pn))\<rparr>)\<rparr>)"
  proof
    let ?t = "s\<lparr>state := Some (st\<lparr>pin := Some (hexlify (hmac_sha256 P hk pn))\<rparr>)\<rparr>"
    assume a: "state s = Some st \<and> keys s ''hmac'' = Some (Bytes hk) \<and> fst (save_state P ?t) \<noteq> Inr ()"
    then obtain e s2 where "save_state P ?t = (Inl e, s2)"
      using not_Inr_unit [of "save_state P ?t"] by blast
    with a show "set_pin P pn s = save_state P ?t"
      by (simp add: set_pin_def key_bytes_def)
  qed
  have c4: "state s = Some st
        \<and> fst (save_state P (s\<lparr>state := Some (st\<lparr>pin_attempts_left := pin_attempts_left st - 1\<rparr>)\<rparr>))
            \<noteq> Inr () \<longrightarrow>
        unlock P pn s =
          save_state P (s\<lparr>state := Some (st\<lparr>pin_attempts_left := pin_attempts_left st - 1\<rparr>)\<rparr>)"
  proof
    let ?t = "s\<lparr>state := Some (st\<lparr>pin_attempts_left := pin_attempts_left st - 1\<rparr>)\<rparr>"
    assume a: "state s = Some st \<and> fst (save_state P ?t) \<noteq> Inr ()"
    then obtain e s2 where "save_state P ?t = (Inl e, s2)"
      using not_Inr_unit [of "save_state P ?t"] by blast
    with a show "unlock P pn s = save_state P ?t"
      by (simp add: unlock_def)
  qed
  note o = save_state_outcomes [where s = s and k = k and P = P, OF _ refl refl refl]
  have c5: "keys s ''ecdsa'' = Some (PrivateKey k) \<and> sig_parse P ?raw = None \<longrightarrow>
        save_state P s = fatal_wipe (ValueError ''bad signature encoding'') ?s1"
    using o(1) by blast
  have c6: "keys s ''ecdsa'' = Some (PrivateKey k) \<and> sig_parse P ?raw = Some sg
        \<and> \<not> pub_verify P (get_public_key P k) sg (sha256 P ?data) \<longrightarrow>
        save_state P s = fatal_wipe (KeyStoreError ''Signature is invalid!'') ?s1"
    using o(2) by blast
  have c7: "keys s ''ecdsa'' = Some (PrivateKey k) \<and> sig_parse P ?raw = Some sg
        \<and> pub_verify P (get_public_key P k) sg (sha256 P ?data)
        \<and> json_loads P ?data = None \<longrightarrow>
        save_state P s = fatal_wipe (ValueError ''syntax error in JSON'') ?s1"
    using o(3) by blast
  have c8: "keys s ''ecdsa'' = Some (PrivateKey k) \<and> sig_parse P ?raw = Some sg
        \<and> pub_verify P (get_public_key P k) sg (sha256 P ?data)
        \<and> json_loads P ?data = Some v \<longrightarrow>
        save_state P s =
          (Inr (), s\<lparr>files := pin_files P k (state s) (path s) (files s), state := v\<rparr>)"
    using o(4) by blast
  have c9: "files (snd (fatal_wipe e ?s1)) (path s @ ''/secret'') = None"
    by (simp add: fatal_wipe_def delete_recursively_def)
  have c10: "keys s ''ecdsa'' = None \<longrightarrow>
        save_state P s =
          (Inl (KeyError ''ecdsa''),
           s\<lparr>files := (files s)(path s @ ''/pin.json'' \<mapsto> json_dumps P (state s))\<rparr>)"
    by (simp add: save_state_def key_priv_def Let_def)
  show ?thesis
    by (intro conjI; fact)
qed

theorem save_state_self_check_wipes_witness:
  "unset_pin rejecting demo =
     (Inl (CriticalErrorWipeImmediately (wiped_msg (KeyStoreError ''Signature is invalid!''))),
      demo\<lparr>state := Some (demo_state\<lparr>pin := None\<rparr>),
           files := delete_recursively ''d''
                      (pin_files rejecting ''ecdsaS'' (Some (demo_state\<lparr>pin := None\<rparr>)) ''d''
                         (files demo))\<rparr>)
   \<and> files (snd (unset_pin rejecting demo)) ''d/secret'' = None
   \<and> files demo ''d/secret'' = Some ''S''"
proof -
  let ?t = "demo\<lparr>state := Some (demo_state\<lparr>pin := None\<rparr>)\<rparr>"
  let ?raw = "sig_serialize rejecting
                (ec_sign rejecting ''ecdsaS'' (sha256 rejecting (json_dumps rejecting (state ?t))))"
  have h: "keys ?t ''ecdsa'' = Some (PrivateKey ''ecdsaS'')
        \<and> sig_parse rejecting ?raw = Some ?raw
        \<and> \<not> pub_verify rejecting (get_public_key rejecting ''ecdsaS'') ?raw
               (sha256 rejecting (json_dumps rejecting (state ?t)))"
    by (simp add: demo_simps rejecting_simps)
  note sv = save_state_self_check_wipes
              [where s = ?t and k = "''ecdsaS''" and P = rejecting and sg = ?raw,
               THEN conjunct2, THEN conjunct2, THEN conjunct2, THEN conjunct2, THEN conjunct2, THEN conjunct1, THEN mp, OF h]
  note up = save_state_self_check_wipes
              [where s = demo and P = rejecting and st = demo_state,
               THEN conjunct2, THEN conjunct1, THEN mp, OF demo_simps(1)]
  have "unset_pin rejecting demo =
     (Inl (CriticalErrorWipeImmediately (wiped_msg (KeyStoreError ''Signature is invalid!''))),
      demo\<lparr>state := Some (demo_state\<lparr>pin := None\<rparr>),
           files := delete_recursively ''d''
                      (pin_files rejecting ''ecdsaS'' (Some (demo_state\<lparr>pin := None\<rparr>)) ''d''
                         (files demo))\<rparr>)"
    unfolding up sv by (simp add: fatal_wipe_def demo_simps)
  then show ?thesis
    by (simp add: delete_recursively_def) (simp add: demo_eq pin_files_def)
qed

text \<open>
  Claim C8. With the keys of a loaded secret, the anti-phishing word of a PIN fragment is
  the word-list entry at the index given by the first two bytes of
  \<open>HMAC-SHA256(auth_key, fragment)\<close>, read as a big-endian number, modulo 2048. It is
  a function of the secret and the fragment only: the PIN state and the lock flag do not
  enter it.
\<close>

theorem auth_word_from_auth_key:
  assumes "base_keys P secret s" "length (WORDLIST P) = 2048"
  shows "get_auth_word P pin_part s =
           Inr (WORDLIST P !
                  (int_from_bytes_big (take 2 (hmac_sha256 P (sha256 P (''auth'' @ secret)) pin_part))
                     mod 2048))
         \<and> get_auth_word P pin_part (s\<lparr>state := v, priv_is_locked := lk\<rparr>)
             = get_auth_word P pin_part s
         \<and> int_from_bytes_big (take 2 (b0 # b1 # rest)) = of_char b0 * 256 + of_char b1"
  using assms
  by (simp add: get_auth_word_def key_bytes_def base_keys_def Let_def int_from_bytes_big_def)

theorem auth_word_from_auth_key_witness:
  "state provisioned = Some fresh_state \<and> pin fresh_state = None
   \<and> get_auth_word toy ''12'' provisioned = Inr ''373''"
proof -
  from auth_word_from_auth_key [OF provisioned_base_keys toy_wordlist(1), of "''12''"]
  show ?thesis
    by (simp add: toy_simps int_from_bytes_big_def toy_wordlist(2) str_nat.simps
          provisioned_simps fresh_state_def)
qed

text \<open>
  Claim C7, as stated, fails on the code. \<open>sign_to_file\<close> writes one file, the
  serialised signature, at the path it is given: the payload is not written by it, so
  \<open>verify_file\<close> on that path right after \<open>sign_to_file\<close> alone finds the signature
  where the payload should be and no \<^verbatim>\<open>.sig\<close> file. And a signature that does not
  validate is reported as \<^verbatim>\<open>KeyStoreError\<close>, the class of the recoverable errors; the
  module has no integrity error of its own.
\<close>

theorem sign_to_file_alone_counterexample:
  "verify_file toy ''d/f'' (Some ''k'')
     (snd (sign_to_file toy ''data'' ''d/f'' (Some ''k'') (new_keystore ''d'' Map.empty)))
     = Inl (OSError ''d/f.sig'')
   \<and> files (snd (sign_to_file toy ''data'' ''d/f'' (Some ''k'') (new_keystore ''d'' Map.empty))) ''d/f''
       = Some ''kdata''
   \<and> verify_file toy ''d/f'' (Some ''k'')
       ((new_keystore ''d'' Map.empty)\<lparr>files := [''d/f'' \<mapsto> ''data'', ''d/f.sig'' \<mapsto> ''forged'']\<rparr>)
       = Inl (KeyStoreError ''Signature is invalid!'')"
  by (simp add: verify_file_def sign_to_file_def new_keystore_def toy_simps)

text \<open>
  Claim C7, amended. For every payload and signing key (given, or the identity key by
  default): \<open>sign_to_file\<close> writes only the detached signature, at the path it is
  given; with the payload written at \<open>path\<close> by the caller, before or after the
  signature is written at \<open>path.sig\<close>, \<open>verify_file path\<close> under the same key returns
  the payload unchanged; when the stored signature does not validate under the key's
  public key, \<open>verify_file\<close> raises \<^verbatim>\<open>KeyStoreError\<close> and returns nothing.
\<close>

theorem sign_then_verify_roundtrip:
  assumes "sig_ok P"
    and "(case key of None \<Rightarrow> idkey s | Some k' \<Rightarrow> Some k') = Some k"
  shows "sign_to_file P data pth key s =
           (Inr (), s\<lparr>files := (files s)(pth \<mapsto> sig_serialize P (ec_sign P k (sha256 P data)))\<rparr>)
         \<and> verify_file P pth key
             (snd (sign_to_file P data (pth @ ''.sig'') key (s\<lparr>files := (files s)(pth \<mapsto> data)\<rparr>)))
             = Inr data
         \<and> verify_file P pth key
             ((snd (sign_to_file P data (pth @ ''.sig'') key s))
                \<lparr>files := (files (snd (sign_to_file P data (pth @ ''.sig'') key s)))(pth \<mapsto> data)\<rparr>)
             = Inr data
         \<and> (files s pth = Some d \<and> files s (pth @ ''.sig'') = Some raw \<and> sig_parse P raw = Some sg
              \<and> \<not> pub_verify P (get_public_key P k) sg (sha256 P d) \<longrightarrow>
             verify_file P pth key s = Inl (KeyStoreError ''Signature is invalid!''))"
  using assms
  by (cases key) (simp_all add: sign_to_file_def verify_file_def Let_def sig_okD)

theorem sign_then_verify_roundtrip_witness:
  "verify_file toy ''d/f'' (Some ''k'')
     (snd (sign_to_file toy ''data'' ''d/f.sig'' (Some ''k'')
             ((new_keystore ''d'' Map.empty)\<lparr>files := [''d/f'' \<mapsto> ''data'']\<rparr>)))
     = Inr ''data''
   \<and> verify_file toy ''d/f'' (Some ''k'')
       ((new_keystore ''d'' Map.empty)\<lparr>files := [''d/f'' \<mapsto> ''data'', ''d/f.sig'' \<mapsto> ''forged'']\<rparr>)
       = Inl (KeyStoreError ''Signature is invalid!'')"
proof -
  let ?emp = "new_keystore ''d'' Map.empty :: string keystore"
  let ?s = "?emp\<lparr>files := [''d/f'' \<mapsto> ''data'', ''d/f.sig'' \<mapsto> ''forged'']\<rparr>"
  have k: "(case Some ''k'' of None \<Rightarrow> idkey ?emp | Some k' \<Rightarrow> Some k') = Some ''k''" by simp
  have k2: "(case Some ''k'' of None \<Rightarrow> idkey ?s | Some k' \<Rightarrow> Some k') = Some ''k''" by simp
  note a = sign_then_verify_roundtrip [where P = toy and key = "Some ''k''" and s = ?emp and k = "''k''"
               and data = "''data''" and pth = "''d/f''",
             OF toy_sig_ok k, THEN conjunct2, THEN conjunct1]
  have f: "files ?s ''d/f'' = Some ''data'' \<and> files ?s (''d/f'' @ ''.sig'') = Some ''forged''
            \<and> sig_parse toy ''forged'' = Some ''forged''
            \<and> \<not> pub_verify toy (get_public_key toy ''k'') ''forged'' (sha256 toy ''data'')"
    by (simp add: toy_simps)
  note b = sign_then_verify_roundtrip [where P = toy and key = "Some ''k''" and s = ?s and k = "''k''"
               and pth = "''d/f''",
             OF toy_sig_ok k2, THEN conjunct2, THEN conjunct2, THEN conjunct2, THEN mp, OF f]
  from a b show ?thesis
    by (simp add: new_keystore_def)
qed




text \<open>
  Claim C1, as stated, fails on the code for the reckless blob. On an unlocked store whose
  saved ciphertext was overwritten on flash, \<open>load\<close> raises
  \<^verbatim>\<open>KeyStoreError\<close>, a recoverable error, and the store is left as it was: nothing is
  wiped, the secret file is still there.
\<close>

theorem reckless_read_failure_counterexample:
  "load toy tampered = (Inl (KeyStoreError ''Signature is invalid!''), tampered)
   \<and> files (snd (load toy tampered)) ''d/secret'' = Some ''S''"
  by (simp add: load_def file_exists_def key_priv_def verify_file_def tampered_simps toy_simps)

text \<open>
  Claim C1, amended. Every failure of the read of the signed PIN-state record wipes and is
  fatal. In \<open>load_state\<close>, a missing signing key, a missing \<^verbatim>\<open>pin.json\<close>, a missing
  \<^verbatim>\<open>pin.json.sig\<close>, a signature that does not parse, a signature that does not
  validate and a payload that is not JSON each end in the deletion of everything under the
  store directory (secret, PIN state and reckless blob) and in
  \<^verbatim>\<open>CriticalErrorWipeImmediately\<close>; it returns normally, with the state it read, only
  when none of them occurs. The signed read of the reckless blob is not guarded in that
  way: when \<open>verify_file\<close> fails in \<open>load\<close>, or in \<open>change_pin\<close> after its
  \<open>unlock\<close>, its exception is raised as it is and the store is not touched further; that
  exception is never the fatal one, and it is \<^verbatim>\<open>KeyStoreError\<close> for a signature that
  does not validate.
\<close>

theorem signed_read_failures:
  "(keys s ''ecdsa'' = None \<longrightarrow> load_state P s = fatal_wipe (KeyError ''ecdsa'') s)
   \<and> (keys s ''ecdsa'' = Some (PrivateKey k) \<and> files s (path s @ ''/pin.json'') = None \<longrightarrow>
        load_state P s = fatal_wipe (OSError (path s @ ''/pin.json'')) s)
   \<and> (keys s ''ecdsa'' = Some (PrivateKey k) \<and> files s (path s @ ''/pin.json'') = Some d
        \<and> files s (path s @ ''/pin.json.sig'') = None \<longrightarrow>
        load_state P s = fatal_wipe (OSError (path s @ ''/pin.json.sig'')) s)
   \<and> (keys s ''ecdsa'' = Some (PrivateKey k) \<and> files s (path s @ ''/pin.json'') = Some d
        \<and> files s (path s @ ''/pin.json.sig'') = Some raw \<and> sig_parse P raw = None \<longrightarrow>
        load_state P s = fatal_wipe (ValueError ''bad signature encoding'') s)
   \<and> (keys s ''ecdsa'' = Some (PrivateKey k) \<and> files s (path s @ ''/pin.json'') = Some d
        \<and> files s (path s @ ''/pin.json.sig'') = Some raw \<and> sig_parse P raw = Some sg
        \<and> \<not> pub_verify P (get_public_key P k) sg (sha256 P d) \<longrightarrow>
        load_state P s = fatal_wipe (KeyStoreError ''Signature is invalid!'') s)
   \<and> (keys s ''ecdsa'' = Some (PrivateKey k) \<and> files s (path s @ ''/pin.json'') = Some d
        \<and> files s (path s @ ''/pin.json.sig'') = Some raw \<and> sig_parse P raw = Some sg
        \<and> pub_verify P (get_public_key P k) sg (sha256 P d) \<and> json_loads P d = None \<longrightarrow>
        load_state P s = fatal_wipe (ValueError ''syntax error in JSON'') s)
   \<and> (keys s ''ecdsa'' = Some (PrivateKey k) \<and> files s (path s @ ''/pin.json'') = Some d
        \<and> files s (path s @ ''/pin.json.sig'') = Some raw \<and> sig_parse P raw = Some sg
        \<and> pub_verify P (get_public_key P k) sg (sha256 P d) \<and> json_loads P d = Some v \<longrightarrow>
        load_state P s = (Inr (), s\<lparr>state := v\<rparr>))
   \<and> (keys s ''ecdsa'' = Some (Bytes b) \<longrightarrow>
        load_state P s = fatal_wipe (TypeError ''private key expected'') s)
   \<and> files (snd (fatal_wipe e s)) (path s @ ''/secret'') = None
   \<and> files (snd (fatal_wipe e s)) (path s @ ''/pin.json'') = None
   \<and> files (snd (fatal_wipe e s)) (path s @ ''/reckless'') = None
   \<and> (is_locked s = Inr False \<and> file_exists (path s @ ''/reckless'') s
        \<and> keys s ''pin_ecdsa'' = Some (PrivateKey ek)
        \<and> verify_file P (path s @ ''/reckless'') (Some ek) s = Inl e' \<longrightarrow>
        load P s = (Inl e', s) \<and> (\<forall>msg. e' \<noteq> CriticalErrorWipeImmediately msg))
   \<and> (unlock P old_pin s = (Inr (), s1) \<and> file_exists (path s1 @ ''/reckless'') s1
        \<and> keys s1 ''pin_ecdsa'' = Some (PrivateKey ek)
        \<and> verify_file P (path s1 @ ''/reckless'') (Some ek) s1 = Inl e' \<longrightarrow>
        change_pin P old_pin new_pin s = (Inl e', s1) \<and> (\<forall>msg. e' \<noteq> CriticalErrorWipeImmediately msg))
   \<and> (files s pth = Some d' \<and> files s (pth @ ''.sig'') = Some raw' \<and> sig_parse P raw' = Some sg'
        \<and> \<not> pub_verify P (get_public_key P ek) sg' (sha256 P d') \<longrightarrow>
        verify_file P pth (Some ek) s = Inl (KeyStoreError ''Signature is invalid!''))"
proof -
  have l1: "keys s ''ecdsa'' = None \<longrightarrow> load_state P s = fatal_wipe (KeyError ''ecdsa'') s"
    by (simp add: load_state_outcomes)
  have l2: "keys s ''ecdsa'' = Some (PrivateKey k) \<and> files s (path s @ ''/pin.json'') = None \<longrightarrow>
        load_state P s = fatal_wipe (OSError (path s @ ''/pin.json'')) s"
    by (simp add: load_state_outcomes)
  have l3: "keys s ''ecdsa'' = Some (PrivateKey k) \<and> files s (path s @ ''/pin.json'') = Some d
        \<and> files s (path s @ ''/pin.json.sig'') = None \<longrightarrow>
        load_state P s = fatal_wipe (OSError (path s @ ''/pin.json.sig'')) s"
    by (simp add: load_state_outcomes)
  have l4: "keys s ''ecdsa'' = Some (PrivateKey k) \<and> files s (path s @ ''/pin.json'') = Some d
        \<and> files s (path s @ ''/pin.json.sig'') = Some raw \<and> sig_parse P raw = None \<longrightarrow>
        load_state P s = fatal_wipe (ValueError ''bad signature encoding'') s"
    by (simp add: load_state_outcomes)
  have l5: "keys s ''ecdsa'' = Some (PrivateKey k) \<and> files s (path s @ ''/pin.json'') = Some d
        \<and> files s (path s @ ''/pin.json.sig'') = Some raw \<and> sig_parse P raw = Some sg
        \<and> \<not> pub_verify P (get_public_key P k) sg (sha256 P d) \<longrightarrow>
        load_state P s = fatal_wipe (KeyStoreError ''Signature is invalid!'') s"
    by (simp add: load_state_outcomes)
  have l6: "keys s ''ecdsa'' = Some (PrivateKey k) \<and> files s (path s @ ''/pin.json'') = Some d
        \<and> files s (path s @ ''/pin.json.sig'') = Some raw \<and> sig_parse P raw = Some sg
        \<and> pub_verify P (get_public_key P k) sg (sha256 P d) \<and> json_loads P d = None \<longrightarrow>
        load_state P s = fatal_wipe (ValueError ''syntax error in JSON'') s"
    by (simp add: load_state_outcomes)
  have l7: "keys s ''ecdsa'' = Some (PrivateKey k) \<and> files s (path s @ ''/pin.json'') = Some d
        \<and> files s (path s @ ''/pin.json.sig'') = Some raw \<and> sig_parse P raw = Some sg
        \<and> pub_verify P (get_public_key P k) sg (sha256 P d) \<and> json_loads P d = Some v \<longrightarrow>
        load_state P s = (Inr (), s\<lparr>state := v\<rparr>)"
    by (simp add: load_state_outcomes)
  have l8: "keys s ''ecdsa'' = Some (Bytes b) \<longrightarrow>
        load_state P s = fatal_wipe (TypeError ''private key expected'') s"
    by (simp add: load_state_outcomes)
  have g1: "files (snd (fatal_wipe e s)) (path s @ ''/secret'') = None"
    and g2: "files (snd (fatal_wipe e s)) (path s @ ''/pin.json'') = None"
    and g3: "files (snd (fatal_wipe e s)) (path s @ ''/reckless'') = None"
    by (simp_all add: fatal_wipe_def delete_recursively_def)
  have rd: "is_locked s = Inr False \<and> file_exists (path s @ ''/reckless'') s
        \<and> keys s ''pin_ecdsa'' = Some (PrivateKey ek)
        \<and> verify_file P (path s @ ''/reckless'') (Some ek) s = Inl e' \<longrightarrow>
        load P s = (Inl e', s) \<and> (\<forall>msg. e' \<noteq> CriticalErrorWipeImmediately msg)"
    using verify_file_not_critical [of P "path s @ ''/reckless''" "Some ek" s]
    by (auto simp: load_def key_priv_def)
  have cp: "unlock P old_pin s = (Inr (), s1) \<and> file_exists (path s1 @ ''/reckless'') s1
        \<and> keys s1 ''pin_ecdsa'' = Some (PrivateKey ek)
        \<and> verify_file P (path s1 @ ''/reckless'') (Some ek) s1 = Inl e' \<longrightarrow>
        change_pin P old_pin new_pin s = (Inl e', s1) \<and> (\<forall>msg. e' \<noteq> CriticalErrorWipeImmediately msg)"
    using verify_file_not_critical [of P "path s1 @ ''/reckless''" "Some ek" s1]
    by (auto simp: change_pin_def key_priv_def)
  have bad: "files s pth = Some d' \<and> files s (pth @ ''.sig'') = Some raw' \<and> sig_parse P raw' = Some sg'
        \<and> \<not> pub_verify P (get_public_key P ek) sg' (sha256 P d') \<longrightarrow>
        verify_file P pth (Some ek) s = Inl (KeyStoreError ''Signature is invalid!'')"
    by (simp add: verify_file_def)
  show ?thesis
    by (intro conjI; fact)
qed

theorem signed_read_failures_witness:
  "load_state toy (demo\<lparr>files := (files demo)(''d/pin.json'' \<mapsto> ''garbage'')\<rparr>) =
     (Inl (CriticalErrorWipeImmediately (wiped_msg (KeyStoreError ''Signature is invalid!''))),
      demo\<lparr>files := delete_recursively ''d'' ((files demo)(''d/pin.json'' \<mapsto> ''garbage''))\<rparr>)
   \<and> load_state toy (demo\<lparr>files := (files demo)(''d/pin.json.sig'' := None)\<rparr>) =
     (Inl (CriticalErrorWipeImmediately (wiped_msg (OSError ''d/pin.json.sig''))),
      demo\<lparr>files := delete_recursively ''d'' ((files demo)(''d/pin.json.sig'' := None))\<rparr>)
   \<and> load toy tampered = (Inl (KeyStoreError ''Signature is invalid!''), tampered)"
proof -
  let ?bad = "demo\<lparr>files := (files demo)(''d/pin.json'' \<mapsto> ''garbage'')\<rparr>"
  let ?nosig = "demo\<lparr>files := (files demo)(''d/pin.json.sig'' := None)\<rparr>"
  let ?sg = "''ecdsaS'' @ toy_dumps (Some demo_state)"
  have v: "verify_file toy (path tampered @ ''/reckless'') (Some ''ecdsakeysS1234'') tampered
             = Inl (KeyStoreError ''Signature is invalid!'')"
    by (simp add: verify_file_def tampered_simps toy_simps)
  have h: "is_locked tampered = Inr False \<and> file_exists (path tampered @ ''/reckless'') tampered
        \<and> keys tampered ''pin_ecdsa'' = Some (PrivateKey ''ecdsakeysS1234'')
        \<and> verify_file toy (path tampered @ ''/reckless'') (Some ''ecdsakeysS1234'') tampered
            = Inl (KeyStoreError ''Signature is invalid!'')"
    using v by (simp add: tampered_simps file_exists_def)
  note ld = signed_read_failures
              [where P = toy and s = tampered and ek = "''ecdsakeysS1234''"
                 and e' = "KeyStoreError ''Signature is invalid!''",
               THEN conjunct2, THEN conjunct2, THEN conjunct2, THEN conjunct2, THEN conjunct2, THEN conjunct2, THEN conjunct2, THEN conjunct2, THEN conjunct2, THEN conjunct2, THEN conjunct2, THEN conjunct1, THEN mp, OF h, THEN conjunct1]
  have b: "keys ?bad ''ecdsa'' = Some (PrivateKey ''ecdsaS'')
        \<and> files ?bad (path ?bad @ ''/pin.json'') = Some ''garbage''
        \<and> files ?bad (path ?bad @ ''/pin.json.sig'') = Some ?sg \<and> sig_parse toy ?sg = Some ?sg
        \<and> \<not> pub_verify toy (get_public_key toy ''ecdsaS'') ?sg (sha256 toy ''garbage'')"
    by (simp add: demo_simps toy_simps) (simp add: demo_eq pin_files_def toy_simps toy_dumps_def)
  note ls = signed_read_failures
              [where P = toy and s = ?bad and k = "''ecdsaS''" and d = "''garbage''" and raw = ?sg
                 and sg = ?sg,
               THEN conjunct2, THEN conjunct2, THEN conjunct2, THEN conjunct2, THEN conjunct1, THEN mp, OF b]
  have n: "keys ?nosig ''ecdsa'' = Some (PrivateKey ''ecdsaS'')
        \<and> files ?nosig (path ?nosig @ ''/pin.json'') = Some (toy_dumps (Some demo_state))
        \<and> files ?nosig (path ?nosig @ ''/pin.json.sig'') = None"
    by (simp add: demo_simps toy_simps) (simp add: demo_eq pin_files_def toy_simps)
  note lm = signed_read_failures
              [where P = toy and s = ?nosig and k = "''ecdsaS''" and d = "toy_dumps (Some demo_state)",
               THEN conjunct2, THEN conjunct2, THEN conjunct1, THEN mp, OF n]
  from ld ls lm show ?thesis
    by (simp add: fatal_wipe_def demo_simps)
qed

end
